theory Spec2Isabelle
  imports Complex_Main "HOL-Library.Signed_Division" "HOL-Library.Monad_Syntax"
begin

section \<open>Conventions of the embedding\<close>

text \<open>
  The sources are the C++ templates of \<^verbatim>\<open>include/mfa\<close>. The scalar type \<^verbatim>\<open>T\<close>
  (\<^verbatim>\<open>float\<close> or \<^verbatim>\<open>double\<close>) is modelled by \<^typ>\<open>real\<close>: comparisons and the four
  operations are the exact ones, rounding is not modelled. C++ \<^verbatim>\<open>int\<close> is modelled by
  \<^typ>\<open>int\<close> without a bound (indices of in-memory vectors), \<^verbatim>\<open>/\<close> on \<^verbatim>\<open>int\<close> by the
  truncating \<open>sdiv\<close>. A \<^verbatim>\<open>std::vector\<close> or an Eigen vector is a list; a read outside
  the vector has no defined behaviour in C++ and is the value \<open>None\<close> of \<open>read_at\<close>.

  A member function of \<^verbatim>\<open>MFA_Data\<close> that works in one dimension reads \<^verbatim>\<open>p(cur_dim)\<close> and
  \<^verbatim>\<open>tmesh.all_knots[cur_dim]\<close>; its model receives these two values as the arguments
  \<open>p\<close> and \<open>knots\<close>.
\<close>

definition read_at :: "'a list \<Rightarrow> int \<Rightarrow> 'a option" where
  "read_at xs i = (if 0 \<le> i \<and> i < int (length xs) then Some (xs ! nat i) else None)"

definition write_at :: "'a list \<Rightarrow> int \<Rightarrow> 'a \<Rightarrow> 'a list option" where
  "write_at xs i v = (if 0 \<le> i \<and> i < int (length xs) then Some (xs[nat i := v]) else None)"

text \<open>
  A counted \<^verbatim>\<open>for\<close> loop runs its body for each index of a list of indices, in order,
  on a state; a body that has no defined result ends the run with \<open>None\<close>.
\<close>

fun for_each :: "int list \<Rightarrow> (int \<Rightarrow> 's \<Rightarrow> 's option) \<Rightarrow> 's \<Rightarrow> 's option" where
  "for_each [] body s = Some s"
| "for_each (i # is) body s = (case body i s of None \<Rightarrow> None | Some s' \<Rightarrow> for_each is body s')"

text \<open>
  What a call does besides returning: \<^verbatim>\<open>exit(c)\<close> ends the process with status \<open>c\<close>, a
  \<^verbatim>\<open>throw\<close> hands a typed failure to the caller. The messages written to \<^verbatim>\<open>stderr\<close> are
  collected in a list of diagnostics.
\<close>

datatype exn = Out_of_range

datatype 'a outcome = Returned 'a | Exited int | Thrown exn

datatype diag =
    Err_p_ndom_pts_size
  | Err_nctrl_pts_too_few int
  | Warn_nctrl_pts_exceeds_ndom_pts int
  | Err_decode_before_encode
  | Err_derivs_size
  | Warn_deriv_exceeds_degree int
  | Warn_B_sum_zero
  | Err_duplicate_knot

section \<open>The data model: tensor products, T-mesh, \<^verbatim>\<open>MFA_Data\<close>\<close>

text \<open>
  An Eigen matrix is the list of its rows. The declarations of \<^verbatim>\<open>TensorProduct\<close> and
  \<^verbatim>\<open>Tmesh\<close> (tmesh.hpp) are not among the sources; the records hold the fields the
  sources read and write.
\<close>

record TensorProduct =
  tp_knot_mins :: "nat list"
  tp_knot_maxs :: "nat list"
  tp_nctrl_pts :: "int list"
  tp_ctrl_pts :: "real list list"
  tp_weights :: "real list"
  tp_level :: int

record Tmesh =
  tm_p :: "int list"
  all_knots :: "real list list"
  all_knot_levels :: "int list list"
  tensor_prods :: "TensorProduct list"

record MFA_Data =
  md_dom_dim :: int
  md_min_dim :: int
  md_max_dim :: int
  md_p :: "int list"
  md_tmesh :: Tmesh

text \<open>
  Modelled from the spec: the constructor \<^verbatim>\<open>Tmesh(dom_dim, p, min_dim, max_dim)\<close> and
  \<^verbatim>\<open>Tmesh::init_knots\<close> are in tmesh.hpp, which is missing. The spec (4.A): the T-mesh
  is the global knot structure plus an ordered list of tensor products, and
  \<open>init_knots(nctrl_pts)\<close> "creates per-dimension knot sequences of length
  \<open>nctrl_pts[k] + p[k] + 1\<close> with level 0". The spec does not give the initial knot
  values; they are 0 here.
\<close>

definition Tmesh_ctor :: "int \<Rightarrow> int list \<Rightarrow> int \<Rightarrow> int \<Rightarrow> Tmesh" where
  "Tmesh_ctor dom_dim p_in min_dim_in max_dim_in =
     \<lparr>tm_p = p_in, all_knots = [], all_knot_levels = [], tensor_prods = []\<rparr>"

definition init_knots :: "Tmesh \<Rightarrow> int list \<Rightarrow> Tmesh" where
  "init_knots tm nctrl_pts =
     tm\<lparr>all_knots := map (\<lambda>(n, pk). replicate (nat (n + pk + 1)) 0) (zip nctrl_pts (tm_p tm)),
        all_knot_levels := map (\<lambda>(n, pk). replicate (nat (n + pk + 1)) 0) (zip nctrl_pts (tm_p tm))\<rparr>"

text \<open>
  The first constructor of \<^verbatim>\<open>MFA_Data\<close> (mfa\_data.hpp, 83-109). \<open>default_nctrl_pts\<close> is
  the value of the by-value parameter \<^verbatim>\<open>nctrl_pts_\<close> after the \<^verbatim>\<open>if (!nctrl_pts_.size())\<close>
  block; the fields \<^verbatim>\<open>N\<close> and \<^verbatim>\<open>max_err\<close> are not set by the constructor and are left
  out of the record.
\<close>

definition default_nctrl_pts :: "int list \<Rightarrow> int list \<Rightarrow> int list" where
  "default_nctrl_pts p_in nctrl_pts_in =
     (if length nctrl_pts_in = 0 then map (\<lambda>i. p_in ! i + 1) [0..<length p_in] else nctrl_pts_in)"

definition MFA_Data_ctor :: "int list \<Rightarrow> int list \<Rightarrow> int \<Rightarrow> int \<Rightarrow> MFA_Data" where
  "MFA_Data_ctor p_in nctrl_pts_in min_dim_in max_dim_in =
     (let dom_dim = int (length p_in);
          tm = Tmesh_ctor dom_dim p_in min_dim_in max_dim_in
      in \<lparr>md_dom_dim = dom_dim,
          md_min_dim = (if min_dim_in = -1 then 0 else min_dim_in),
          md_max_dim = (if max_dim_in = -1 then 0 else max_dim_in),
          md_p = p_in,
          md_tmesh = init_knots tm (default_nctrl_pts p_in nctrl_pts_in)\<rparr>)"

section \<open>Span location: \<^verbatim>\<open>MFA_Data::FindSpan\<close>\<close>

text \<open>
  The binary search of \<^verbatim>\<open>FindSpan(cur_dim, u, nctrl_pts)\<close> (mfa\_data.hpp, 189-211). The
  \<^verbatim>\<open>while\<close> loop has no bound in the source, so the loop is a partial function: \<open>None\<close>
  is "no value returned" (the loop runs forever, or an index leaves the knot vector).
  The loop condition \<^verbatim>\<open>u < knots[mid] || u >= knots[mid + 1]\<close> is evaluated left to
  right, so \<^verbatim>\<open>knots[mid + 1]\<close> is read only when the first test fails.
\<close>

partial_function (option) FindSpan_loop :: "real list \<Rightarrow> real \<Rightarrow> int \<Rightarrow> int \<Rightarrow> int \<Rightarrow> int option" where
  "FindSpan_loop knots u low high mid =
     (case read_at knots mid of
        None \<Rightarrow> None
      | Some km \<Rightarrow>
          if u < km then FindSpan_loop knots u low mid ((low + mid) sdiv 2)
          else (case read_at knots (mid + 1) of
                  None \<Rightarrow> None
                | Some km1 \<Rightarrow>
                    if u \<ge> km1 then FindSpan_loop knots u mid high ((mid + high) sdiv 2)
                    else Some mid))"

definition FindSpan :: "int \<Rightarrow> real list \<Rightarrow> real \<Rightarrow> int \<Rightarrow> int option" where
  "FindSpan p knots u nctrl_pts =
     (case read_at knots nctrl_pts of
        None \<Rightarrow> None
      | Some kn \<Rightarrow>
          if u = kn then Some (nctrl_pts - 1)
          else FindSpan_loop knots u p nctrl_pts ((p + nctrl_pts) sdiv 2))"

section \<open>Precondition checks of the encoder and the decoder\<close>

text \<open>
  \<^verbatim>\<open>Encoder::Quants\<close> (encode.hpp, 735-773). It reads \<^verbatim>\<open>mfa.p\<close>, \<^verbatim>\<open>mfa.ndom_pts\<close> and
  \<^verbatim>\<open>mfa.tmesh.tensor_prods[0].nctrl_pts\<close>, the three vectors the model receives. In each
  dimension the test \<^verbatim>\<open>nctrl_pts(i) <= p(i)\<close> comes first and ends the process with
  \<^verbatim>\<open>exit(1)\<close>; the test against \<^verbatim>\<open>ndom_pts(i)\<close> only warns.
\<close>

fun Quants_dims :: "int list \<Rightarrow> int list \<Rightarrow> int list \<Rightarrow> int list \<Rightarrow> diag list \<Rightarrow>
    (diag list \<times> unit outcome) option" where
  "Quants_dims p ndom_pts nctrl_pts [] msgs = Some (msgs, Returned ())"
| "Quants_dims p ndom_pts nctrl_pts (i # is) msgs =
     do {
       n \<leftarrow> read_at nctrl_pts i;
       pk \<leftarrow> read_at p i;
       if n \<le> pk then Some (msgs @ [Err_nctrl_pts_too_few i], Exited 1)
       else do {
         nd \<leftarrow> read_at ndom_pts i;
         Quants_dims p ndom_pts nctrl_pts is
           (if n > nd then msgs @ [Warn_nctrl_pts_exceeds_ndom_pts i] else msgs)
       }
     }"

definition Quants :: "int list \<Rightarrow> int list \<Rightarrow> int list \<Rightarrow>
    (diag list \<times> (int list \<times> int list) outcome) option" where
  "Quants p ndom_pts nctrl_pts =
     (if length p \<noteq> length ndom_pts then Some ([Err_p_ndom_pts_size], Exited 1)
      else do {
        (msgs, r) \<leftarrow> Quants_dims p ndom_pts nctrl_pts [0..int (length p) - 1] [];
        case r of
          Returned _ \<Rightarrow> do {
            n \<leftarrow> for_each [0..int (length p) - 1]
                   (\<lambda>i n. do { c \<leftarrow> read_at nctrl_pts i; write_at n i (c - 1) })
                   (replicate (length p) 0);
            m \<leftarrow> for_each [0..int (length p) - 1]
                   (\<lambda>i m. do { d \<leftarrow> read_at ndom_pts i; write_at m i (d - 1) })
                   (replicate (length p) 0);
            Some (msgs, Returned (n, m))
          }
        | Exited c \<Rightarrow> Some (msgs, Exited c)
        | Thrown e \<Rightarrow> Some (msgs, Thrown e)
      })"

text \<open>
  The constructor \<^verbatim>\<open>Decoder::Decoder\<close> (decode.hpp, 249-304). The initializer list reads
  \<^verbatim>\<open>mfa_data_.p(0)\<close> for \<^verbatim>\<open>q0\<close> before the body runs. The body first tests that encoding
  was done and calls \<^verbatim>\<open>exit(0)\<close> otherwise; the tests are joined by \<^verbatim>\<open>||\<close>, so
  \<^verbatim>\<open>tensor_prods[0]\<close> is read only when \<^verbatim>\<open>tensor_prods\<close> is not empty. Then it fills the
  strides \<^verbatim>\<open>cs\<close>, \<^verbatim>\<open>ds\<close>, the orders \<^verbatim>\<open>q\<close>, the table \<^verbatim>\<open>ct\<close> and \<^verbatim>\<open>jumps = ct * cs\<close>.
  \<^verbatim>\<open>size()\<close> of an Eigen matrix is its number of coefficients.
\<close>

record Decoder =
  dec_dom_dim :: int
  dec_tot_iters :: int
  dec_ct :: "int list list"
  dec_cs :: "int list"
  dec_ds :: "int list"
  dec_jumps :: "int list"
  dec_q0 :: int
  dec_q :: "int list"
  dec_verbose :: int
  dec_saved_basis :: bool

definition mat_size :: "'a list list \<Rightarrow> nat" where
  "mat_size m = length (concat m)"

definition Decoder_strides :: "int list \<Rightarrow> int list \<Rightarrow> int \<Rightarrow>
    (int list \<times> int list \<times> int list) option" where
  "Decoder_strides p nctrl_pts dom_dim =
     for_each [0..int (length p) - 1]
       (\<lambda>i (q, cs, ds). do {
          pk \<leftarrow> read_at p i;
          q' \<leftarrow> write_at q i (pk + 1);
          if i > 0 then do {
            c \<leftarrow> read_at cs (i - 1);
            n \<leftarrow> read_at nctrl_pts (i - 1);
            cs' \<leftarrow> write_at cs i (c * n);
            d \<leftarrow> read_at ds (i - 1);
            qi \<leftarrow> read_at q' i;
            ds' \<leftarrow> write_at ds i (d * qi);
            Some (q', cs', ds')
          } else Some (q', cs, ds)
        })
       (replicate (nat dom_dim) 0, replicate (nat dom_dim) 1, replicate (nat dom_dim) 1)"

definition Decoder_ct_row :: "int list \<Rightarrow> int \<Rightarrow> int \<Rightarrow> int list option" where
  "Decoder_ct_row p tot_iters i =
     do {
       (dv, i_temp, row) \<leftarrow> for_each (rev [0..int (length p) - 1])
         (\<lambda>j (dv, i_temp, row). do {
            pj \<leftarrow> read_at p j;
            if pj + 1 = 0 \<or> dv sdiv (pj + 1) = 0 then None
            else do {
              let dv' = dv sdiv (pj + 1);
              let c = i_temp sdiv dv';
              row' \<leftarrow> write_at row j c;
              Some (dv', i_temp - c * dv', row')
            }
          })
         (tot_iters, i, replicate (length p) 0);
       Some row
     }"

definition Decoder_ctor :: "MFA_Data \<Rightarrow> int \<Rightarrow> bool \<Rightarrow> (diag list \<times> Decoder outcome) option" where
  "Decoder_ctor mfa_data verbose saved_basis =
     do {
       p0 \<leftarrow> read_at (md_p mfa_data) 0;
       let p = md_p mfa_data;
       let tm = md_tmesh mfa_data;
       let dom_dim = md_dom_dim mfa_data;
       let tot_iters = prod_list (map (\<lambda>x. x + 1) p);
       if length p = 0 \<or> length (all_knots tm) = 0 \<or> length (tensor_prods tm) = 0 \<or>
          length (tp_nctrl_pts (tensor_prods tm ! 0)) = 0 \<or>
          mat_size (tp_ctrl_pts (tensor_prods tm ! 0)) = 0
       then Some ([Err_decode_before_encode], Exited 0)
       else do {
         (q, cs, ds) \<leftarrow> Decoder_strides p (tp_nctrl_pts (tensor_prods tm ! 0)) dom_dim;
         ct \<leftarrow> for_each [0..tot_iters - 1]
                 (\<lambda>i ct. do { row \<leftarrow> Decoder_ct_row p tot_iters i; write_at ct i row })
                 (replicate (nat tot_iters) (replicate (length p) 0));
         Some ([], Returned
           \<lparr>dec_dom_dim = dom_dim, dec_tot_iters = tot_iters, dec_ct = ct, dec_cs = cs,
            dec_ds = ds, dec_jumps = map (\<lambda>row. sum_list (map2 (*) row cs)) ct,
            dec_q0 = p0 + 1, dec_q = q, dec_verbose = verbose,
            dec_saved_basis = saved_basis\<rparr>)
       }
     }"

text \<open>
  The check of \<^verbatim>\<open>derivs\<close> that opens \<^verbatim>\<open>Decoder::VolPt\<close> (decode.hpp, 1099-1112): a
  non-empty \<^verbatim>\<open>derivs\<close> whose size is not the number of domain dimensions ends the
  process with \<^verbatim>\<open>exit(0)\<close>; a derivative above the degree only warns.
\<close>

definition VolPt_derivs_check :: "MFA_Data \<Rightarrow> int list \<Rightarrow> (diag list \<times> unit outcome) option" where
  "VolPt_derivs_check mfa_data derivs =
     (if length derivs \<noteq> 0 then
        if int (length derivs) \<noteq> md_dom_dim mfa_data then Some ([Err_derivs_size], Exited 0)
        else do {
          msgs \<leftarrow> for_each [0..md_dom_dim mfa_data - 1]
            (\<lambda>i msgs. do {
               d \<leftarrow> read_at derivs i;
               pk \<leftarrow> read_at (md_p mfa_data) i;
               Some (if d > pk then msgs @ [Warn_deriv_exceeds_degree i] else msgs)
             }) [];
          Some (msgs, Returned ())
        }
      else Some ([], Returned ()))"

section \<open>Rational denominators\<close>

text \<open>
  The end of \<^verbatim>\<open>Decoder::VolPt_tmesh\<close> (decode.hpp, 704-709): the point is divided by the
  sum of the weighted basis functions when the sum is positive; otherwise a warning is
  written and the point is left as it is.
\<close>

definition VolPt_tmesh_normalize :: "real list \<Rightarrow> real \<Rightarrow> real list \<times> diag list" where
  "VolPt_tmesh_normalize out_pt B_sum =
     (if B_sum > 0 then (map (\<lambda>x. x / B_sum) out_pt, []) else (out_pt, [Warn_B_sum_zero]))"

text \<open>
  The end of \<^verbatim>\<open>Decoder::VolPt\<close> (decode.hpp, 1184-1195), with \<^verbatim>\<open>WEIGH_ALL_DIMS\<close> not
  defined: the last coordinate is divided by the denominator, with no test. A floating
  point division by zero gives an infinity or a NaN, never a finite number; the value
  \<open>Not_finite\<close> stands for both.
\<close>

datatype fval = Finite real | Not_finite

definition fdiv :: "real \<Rightarrow> real \<Rightarrow> fval" where
  "fdiv x y = (if y = 0 then Not_finite else Finite (x / y))"

definition VolPt_normalize :: "int list \<Rightarrow> real list list \<Rightarrow> real list \<Rightarrow> int \<Rightarrow> int \<Rightarrow>
    (fval list \<times> diag list) option" where
  "VolPt_normalize derivs temp temp_denom dom_dim last_col =
     do {
       denom \<leftarrow> (if length derivs \<noteq> 0 \<and> sum_list derivs \<noteq> 0 then Some 1
                 else read_at temp_denom (dom_dim - 1));
       out_pt \<leftarrow> read_at temp (dom_dim - 1);
       x \<leftarrow> read_at out_pt last_col;
       out_pt' \<leftarrow> write_at (map Finite out_pt) last_col (fdiv x denom);
       Some (out_pt', [])
     }"

text \<open>
  The denominators of \<^verbatim>\<open>Encoder::RHS\<close> (encode.hpp, 635-645): for each input point the sum
  of the products of the row of \<^verbatim>\<open>N\<close> with the weights; when \<^verbatim>\<open>UNCLAMPED_KNOTS\<close> is
  defined (the flag \<open>unclamped_knots\<close>) a zero sum is replaced by 1.
\<close>

definition RHS_denom :: "bool \<Rightarrow> real list list \<Rightarrow> real list \<Rightarrow> real list" where
  "RHS_denom unclamped_knots N weights =
     map (\<lambda>row. let d = sum_list (map2 (*) row weights)
                 in if unclamped_knots \<and> d = 0 then 1 else d) N"

section \<open>Knot insertion into a curve: \<^verbatim>\<open>MFA_Data::NewCurveKnotIns\<close>\<close>

text \<open>
  Five loops of \<^verbatim>\<open>NewCurveKnotIns\<close> copy a range of two parallel vectors (knots and
  levels, or control points and weights) with an offset:
  \<^verbatim>\<open>for (i ...) { d1[i + dst] = s1[i + src]; d2[i + dst] = s2[i + src]; }\<close>.
\<close>

definition copy2 :: "int list \<Rightarrow> int \<Rightarrow> int \<Rightarrow> 'a list \<Rightarrow> 'b list \<Rightarrow> 'a list \<times> 'b list \<Rightarrow>
    ('a list \<times> 'b list) option" where
  "copy2 idxs dst src s1 s2 =
     for_each idxs (\<lambda>i (d1, d2). do {
       x \<leftarrow> read_at s1 (i + src);
       d1' \<leftarrow> write_at d1 (i + dst) x;
       y \<leftarrow> read_at s2 (i + src);
       d2' \<leftarrow> write_at d2 (i + dst) y;
       Some (d1', d2')
     })"

text \<open>
  \<^verbatim>\<open>alpha * a + (1.0 - alpha) * b\<close> on two rows of a matrix.
\<close>

definition affine_row :: "real \<Rightarrow> real list \<Rightarrow> real list \<Rightarrow> real list" where
  "affine_row alpha a b = map2 (\<lambda>x y. alpha * x + (1 - alpha) * y) a b"

text \<open>
  The loop that inserts the new control point, in place on the temporary rows
  (mfa\_data.hpp, 1217-1223).
\<close>

definition insert_loop :: "int \<Rightarrow> int \<Rightarrow> int \<Rightarrow> real list \<Rightarrow> real \<Rightarrow> real list list \<times> real list \<Rightarrow>
    (real list list \<times> real list) option" where
  "insert_loop p spn L old_knots u =
     for_each [0..p - 1] (\<lambda>i (temp_ctrl_pts, temp_weights). do {
       a \<leftarrow> read_at old_knots (L + i);
       b \<leftarrow> read_at old_knots (i + spn + 1);
       let alpha = (u - a) / (b - a);
       r1 \<leftarrow> read_at temp_ctrl_pts (i + 1);
       r0 \<leftarrow> read_at temp_ctrl_pts i;
       temp_ctrl_pts' \<leftarrow> write_at temp_ctrl_pts i (affine_row alpha r1 r0);
       w1 \<leftarrow> read_at temp_weights (i + 1);
       w0 \<leftarrow> read_at temp_weights i;
       temp_weights' \<leftarrow> write_at temp_weights i (alpha * w1 + (1 - alpha) * w0);
       Some (temp_ctrl_pts', temp_weights')
     })"

text \<open>
  \<^verbatim>\<open>NewCurveKnotIns\<close> (mfa\_data.hpp, 1158-1235). \<open>knots\<close> is
  \<^verbatim>\<open>tmesh.all_knots[cur_dim]\<close>, which the source searches with \<^verbatim>\<open>FindSpan\<close> and tests for
  a duplicate; \<open>old_knots\<close> is the argument it copies from. The four outputs are
  resized first; their entries start as 0 in the model (Eigen leaves them
  uninitialised). A knot equal to \<^verbatim>\<open>knots[span]\<close> ends the process with \<^verbatim>\<open>exit(0)\<close>.
  The division that gives \<^verbatim>\<open>alpha\<close> is the division of \<^typ>\<open>real\<close>.
\<close>

definition NewCurveKnotIns :: "int \<Rightarrow> real list \<Rightarrow> real list \<Rightarrow> int list \<Rightarrow> real list list \<Rightarrow>
    real list \<Rightarrow> real \<Rightarrow> int \<Rightarrow>
    (diag list \<times> (real list \<times> int list \<times> real list list \<times> real list) outcome) option" where
  "NewCurveKnotIns p knots old_knots old_knot_levels old_ctrl_pts old_weights u level =
     do {
       let rows = int (length old_ctrl_pts);
       let cols = (case old_ctrl_pts of [] \<Rightarrow> 0 | r # _ \<Rightarrow> length r);
       let new_knots = replicate (length old_knots + 1) 0;
       let new_knot_levels = replicate (length old_knot_levels + 1) 0;
       let new_ctrl_pts = replicate (length old_ctrl_pts + 1) (replicate cols 0);
       let new_weights = replicate (length old_weights + 1) 0;
       let temp_ctrl_pts = replicate (nat (p + 1)) (replicate cols 0);
       let temp_weights = replicate (nat (p + 1)) 0;
       spn \<leftarrow> FindSpan p knots u rows;
       ks \<leftarrow> read_at knots spn;
       if ks = u then Some ([Err_duplicate_knot], Exited 0)
       else do {
         (new_knots, new_knot_levels) \<leftarrow>
           copy2 [0..spn] 0 0 old_knots old_knot_levels (new_knots, new_knot_levels);
         new_knots \<leftarrow> write_at new_knots (spn + 1) u;
         new_knot_levels \<leftarrow> write_at new_knot_levels (spn + 1) level;
         (new_knots, new_knot_levels) \<leftarrow>
           copy2 [spn + 1..rows + p] 1 0 old_knots old_knot_levels (new_knots, new_knot_levels);
         (new_ctrl_pts, new_weights) \<leftarrow>
           copy2 [0..spn - p] 0 0 old_ctrl_pts old_weights (new_ctrl_pts, new_weights);
         (new_ctrl_pts, new_weights) \<leftarrow>
           copy2 [spn..rows - 1] 1 0 old_ctrl_pts old_weights (new_ctrl_pts, new_weights);
         (temp_ctrl_pts, temp_weights) \<leftarrow>
           copy2 [0..p] 0 (spn - p) old_ctrl_pts old_weights (temp_ctrl_pts, temp_weights);
         let L = spn - p + 1;
         (temp_ctrl_pts, temp_weights) \<leftarrow>
           insert_loop p spn L old_knots u (temp_ctrl_pts, temp_weights);
         t0 \<leftarrow> read_at temp_ctrl_pts 0;
         new_ctrl_pts \<leftarrow> write_at new_ctrl_pts L t0;
         w0 \<leftarrow> read_at temp_weights 0;
         new_weights \<leftarrow> write_at new_weights L w0;
         tp \<leftarrow> read_at temp_ctrl_pts (p - 1);
         new_ctrl_pts \<leftarrow> write_at new_ctrl_pts spn tp;
         wp \<leftarrow> read_at temp_weights (p - 1);
         new_weights \<leftarrow> write_at new_weights spn wp;
         (new_ctrl_pts, new_weights) \<leftarrow>
           copy2 [L + 1..spn - 1] 0 (- L) temp_ctrl_pts temp_weights (new_ctrl_pts, new_weights);
         Some ([], Returned (new_knots, new_knot_levels, new_ctrl_pts, new_weights))
       }
     }"

text \<open>
  Two predicates for the proofs: what a copying loop and what the inserting loop leave in
  a vector \<open>e\<close> that was \<open>d\<close> (or \<open>t\<close>) before.
\<close>

definition copied :: "int \<Rightarrow> int \<Rightarrow> int \<Rightarrow> int \<Rightarrow> 'a list \<Rightarrow> 'a list \<Rightarrow> 'a list \<Rightarrow> bool" where
  "copied lo hi dst src s d e \<longleftrightarrow>
     length e = length d \<and>
     (\<forall>j. e ! j = (if lo + dst \<le> int j \<and> int j \<le> hi + dst
                     then s ! nat (int j - dst + src) else d ! j))"

definition inserted :: "int \<Rightarrow> (nat \<Rightarrow> real) \<Rightarrow> (real \<Rightarrow> 'a \<Rightarrow> 'a \<Rightarrow> 'a) \<Rightarrow> 'a list \<Rightarrow> 'a list \<Rightarrow> bool" where
  "inserted p al f t e \<longleftrightarrow>
     length e = length t \<and>
     (\<forall>j. e ! j = (if int j < p then f (al j) (t ! (j + 1)) (t ! j) else t ! j))"

section \<open>Basis functions: \<^verbatim>\<open>MFA_Data::OrigBasisFuns\<close>\<close>

text \<open>
  \<^verbatim>\<open>OrigBasisFuns\<close> (mfa\_data.hpp, 325-369), algorithm 2.2 of Piegl and Tiller. The inner
  loop over \<open>r\<close> updates \<^verbatim>\<open>scratch\<close> in place and carries \<^verbatim>\<open>saved\<close>; the outer loop over
  \<open>j\<close> fills \<^verbatim>\<open>left[j]\<close> and \<^verbatim>\<open>right[j]\<close> first. The three vectors have \<open>p + 1\<close> entries,
  value-initialised. The model returns the row of \<^verbatim>\<open>N\<close> that the function zeroes and
  then fills at the columns \<open>span - p, ..., span\<close>; \<open>ncols\<close> is \<^verbatim>\<open>N.cols()\<close>. The
  division is the division of \<^typ>\<open>real\<close>.
\<close>

definition OrigBasisFuns_inner :: "int \<Rightarrow> real list \<Rightarrow> real list \<Rightarrow> real list \<times> real \<Rightarrow>
    (real list \<times> real) option" where
  "OrigBasisFuns_inner j left right =
     for_each [0..j - 1] (\<lambda>r (scratch, saved). do {
       s \<leftarrow> read_at scratch r;
       rr \<leftarrow> read_at right (r + 1);
       l \<leftarrow> read_at left (j - r);
       let temp = s / (rr + l);
       scratch' \<leftarrow> write_at scratch r (saved + rr * temp);
       Some (scratch', l * temp)
     })"



section \<open>Error of a curve: \<^verbatim>\<open>Encoder::ErrorCurve\<close>\<close>

text \<open>
  \<^verbatim>\<open>ErrorCurve\<close> (encode.hpp, 1066-1134) walks the input points of one curve of dimension
  \<open>k\<close>. The model receives \<^verbatim>\<open>mfa.p[k]\<close>, \<^verbatim>\<open>mfa.tmesh.all_knots[k]\<close>, \<^verbatim>\<open>mfa.params[k]\<close>,
  \<^verbatim>\<open>mfa.ndom_pts[k]\<close> and \<^verbatim>\<open>mfa.ds[k]\<close> as \<open>p\<close>, \<open>knots\<close>, \<open>params\<close>, \<open>ndom_pts\<close> and \<open>ds\<close>.
  The decoder is a parameter: \<open>CurvePt u\<close> is the point that
  \<^verbatim>\<open>decoder.CurvePt(k, u, ctrl_pts, weights, tensor, cpt)\<close> leaves in \<^verbatim>\<open>cpt\<close>. The set
  \<^verbatim>\<open>err_spans\<close> is passed in and returned with the count \<^verbatim>\<open>nerr\<close>.

  The \<^verbatim>\<open>while\<close> loop that advances \<^verbatim>\<open>span\<close> and the two scans for a parameter in each
  half of the span have no bound on their index in the source; an index outside the
  vector is \<open>None\<close>, which also bounds the recursion.
\<close>

function advance_span :: "real list \<Rightarrow> real \<Rightarrow> int \<Rightarrow> int option" where
  "advance_span knots prm spn =
     (case read_at knots (spn + 1) of
        None \<Rightarrow> None
      | Some k1 \<Rightarrow> if k1 < 1 \<and> k1 \<le> prm then advance_span knots prm (spn + 1) else Some spn)"
  by pat_completeness auto
termination
  by (relation "measure (\<lambda>(knots, prm, spn). nat (int (length knots) - spn))")
    (auto simp: read_at_def split: if_splits)

function scan_left :: "real list \<Rightarrow> real \<Rightarrow> real \<Rightarrow> int \<Rightarrow> bool option" where
  "scan_left params klo mid j =
     (case read_at params j of
        None \<Rightarrow> None
      | Some pj \<Rightarrow>
          if pj \<ge> klo then (if pj < mid then Some True else scan_left params klo mid (j - 1))
          else Some False)"
  by pat_completeness auto
termination
  by (relation "measure (\<lambda>(params, klo, mid, j). nat (j + 1))")
    (auto simp: read_at_def split: if_splits)

function scan_right :: "real list \<Rightarrow> real \<Rightarrow> real \<Rightarrow> int \<Rightarrow> bool option" where
  "scan_right params khi mid j =
     (case read_at params j of
        None \<Rightarrow> None
      | Some pj \<Rightarrow>
          if pj < khi then (if pj \<ge> mid then Some True else scan_right params khi mid (j + 1))
          else Some False)"
  by pat_completeness auto
termination
  by (relation "measure (\<lambda>(params, khi, mid, j). nat (int (length params) - j))")
    (auto simp: read_at_def split: if_splits)

definition ErrorCurve_max_err :: "real list \<Rightarrow> real list list \<Rightarrow> int \<Rightarrow> int \<Rightarrow> int \<Rightarrow>
    real list \<Rightarrow> real option" where
  "ErrorCurve_max_err cpt domain row min_dim max_dim extents =
     for_each [0..max_dim - min_dim] (\<lambda>j max_err. do {
       c \<leftarrow> read_at cpt j;
       r \<leftarrow> read_at domain row;
       d \<leftarrow> read_at r (min_dim + j);
       e \<leftarrow> read_at extents (min_dim + j);
       let err = \<bar>c - d\<bar> / e;
       Some (if err > max_err then err else max_err)
     }) 0"

definition ErrorCurve :: "int \<Rightarrow> real list \<Rightarrow> real list \<Rightarrow> int \<Rightarrow> int \<Rightarrow> int \<Rightarrow> int \<Rightarrow>
    real list list \<Rightarrow> int \<Rightarrow> (real \<Rightarrow> real list option) \<Rightarrow> real list \<Rightarrow> int set \<Rightarrow> real \<Rightarrow>
    (int set \<times> int) option" where
  "ErrorCurve p knots params ndom_pts ds min_dim max_dim domain co CurvePt extents err_spans err_limit =
     do {
       let extents = (if length extents = 0
                      then replicate (case domain of [] \<Rightarrow> 0 | r # _ \<Rightarrow> length r) 1
                      else extents);
       (spn, err_spans, nerr) \<leftarrow>
         for_each [0..ndom_pts - 1] (\<lambda>i (spn, err_spans, nerr). do {
           prm \<leftarrow> read_at params i;
           spn \<leftarrow> advance_span knots prm spn;
           cpt \<leftarrow> CurvePt prm;
           max_err \<leftarrow> ErrorCurve_max_err cpt domain (co + i * ds) min_dim max_dim extents;
           if max_err > err_limit then do {
             err_spans \<leftarrow>
               (if spn \<notin> err_spans then do {
                  klo \<leftarrow> read_at knots spn;
                  khi \<leftarrow> read_at knots (spn + 1);
                  split_left \<leftarrow> scan_left params klo ((klo + khi) / 2) i;
                  split_right \<leftarrow> scan_right params khi ((klo + khi) / 2) i;
                  Some (if split_left \<and> split_right then insert spn err_spans else err_spans)
                } else Some err_spans);
             Some (spn, err_spans, nerr + 1)
           } else Some (spn, err_spans, nerr)
         }) (p, err_spans, 0);
       Some (err_spans, nerr)
     }"

section \<open>Fast point evaluation: \<^verbatim>\<open>Decoder::FastVolPt\<close>\<close>

text \<open>
  \<^verbatim>\<open>FastDecodeInfo\<close> (decode.hpp, 95-146): the scratch space of \<^verbatim>\<open>FastVolPt\<close>. The
  constructor sizes the basis vectors \<^verbatim>\<open>N[i]\<close> by \<^verbatim>\<open>decoder.q[i]\<close>, the temporaries
  \<^verbatim>\<open>t[i]\<close> by \<^verbatim>\<open>decoder.tot_iters / decoder.ds[i+1]\<close> (the last one by 1), and the vectors
  \<^verbatim>\<open>left\<close> and \<^verbatim>\<open>right\<close> of its \<^verbatim>\<open>BasisFunInfo\<close> (mfa\_data.hpp, 35-56) by the largest
  entry of \<^verbatim>\<open>decoder.q\<close>. The fields used by \<^verbatim>\<open>FastGrad\<close> only are left out.
\<close>

record FastDecodeInfo =
  di_N :: "real list list"
  di_t :: "real list list"
  di_span :: "int list"
  di_left :: "real list"
  di_right :: "real list"

definition BasisFunInfo_qmax :: "int list \<Rightarrow> int" where
  "BasisFunInfo_qmax q = fold (\<lambda>qi qmax. if qi > qmax then qi else qmax) q 0"

definition FastDecodeInfo_ctor :: "Decoder \<Rightarrow> FastDecodeInfo option" where
  "FastDecodeInfo_ctor decoder =
     do {
       let dom_dim = dec_dom_dim decoder;
       let qmax = BasisFunInfo_qmax (dec_q decoder);
       N \<leftarrow> for_each [0..dom_dim - 1]
              (\<lambda>i N. do { qi \<leftarrow> read_at (dec_q decoder) i; write_at N i (replicate (nat qi) 0) })
              (replicate (nat dom_dim) []);
       t \<leftarrow> for_each [0..dom_dim - 2]
              (\<lambda>i t. do {
                 d \<leftarrow> read_at (dec_ds decoder) (i + 1);
                 if d = 0 then None
                 else write_at t i (replicate (nat (dec_tot_iters decoder sdiv d)) 0)
               })
              (replicate (nat dom_dim) []);
       t \<leftarrow> write_at t (dom_dim - 1) (replicate 1 0);
       Some \<lparr>di_N = N, di_t = t, di_span = replicate (nat dom_dim) 0,
             di_left = replicate (nat qmax) 0, di_right = replicate (nat qmax) 0\<rparr>
     }"

text \<open>
  \<^verbatim>\<open>FindSpan(cur_dim, u)\<close> (mfa\_data.hpp, 222-261) computes the number of control points
  from the number of knots and then runs the same search.
\<close>

definition FindSpan_knots :: "int \<Rightarrow> real list \<Rightarrow> real \<Rightarrow> int option" where
  "FindSpan_knots p knots u = FindSpan p knots u (int (length knots) - p - 1)"

text \<open>
  \<^verbatim>\<open>FastBasisFuns\<close> (mfa\_data.hpp, 378-422): the recurrence of \<^verbatim>\<open>OrigBasisFuns\<close>, in place
  on the vector \<^verbatim>\<open>N\<close> with the scratch vectors of the \<^verbatim>\<open>BasisFunInfo\<close>. Before and after
  the recurrence the function prints \<^verbatim>\<open>N[0]\<close>, \<^verbatim>\<open>N[1]\<close>, \<^verbatim>\<open>N[2]\<close> and \<^verbatim>\<open>bfi.right.at(0)\<close>,
  \<^verbatim>\<open>.at(1)\<close>, \<^verbatim>\<open>.at(2)\<close>: the reads of \<^verbatim>\<open>N\<close> are unchecked, and \<^verbatim>\<open>at\<close> throws
  \<^verbatim>\<open>std::out_of_range\<close> on a vector of fewer than three entries.
\<close>

definition FastBasisFuns_prints :: "real list \<Rightarrow> real list \<Rightarrow> unit outcome option" where
  "FastBasisFuns_prints N right =
     do {
       n0 \<leftarrow> read_at N 0;
       n1 \<leftarrow> read_at N 1;
       n2 \<leftarrow> read_at N 2;
       if length right < 3 then Some (Thrown Out_of_range) else Some (Returned ())
     }"

definition FastBasisFuns :: "int \<Rightarrow> real list \<Rightarrow> real \<Rightarrow> int \<Rightarrow> real list \<Rightarrow> real list \<Rightarrow> real list \<Rightarrow>
    (real list \<times> real list \<times> real list) outcome option" where
  "FastBasisFuns p knots u spn N left right =
     do {
       N \<leftarrow> write_at N 0 1;
       pr \<leftarrow> FastBasisFuns_prints N right;
       case pr of
         Returned _ \<Rightarrow> do {
           (N, left, right) \<leftarrow> for_each [1..p] (\<lambda>j (N, left, right). do {
             kl \<leftarrow> read_at knots (spn + 1 - j);
             left' \<leftarrow> write_at left j (u - kl);
             kr \<leftarrow> read_at knots (spn + j);
             right' \<leftarrow> write_at right j (kr - u);
             (N', saved) \<leftarrow> OrigBasisFuns_inner j left' right' (N, 0);
             N'' \<leftarrow> write_at N' j saved;
             Some (N'', left', right')
           }) (N, left, right);
           pr' \<leftarrow> FastBasisFuns_prints N right;
           case pr' of
             Returned _ \<Rightarrow> Some (Returned (N, left, right))
           | Exited c \<Rightarrow> Some (Exited c)
           | Thrown e \<Rightarrow> Some (Thrown e)
         }
       | Exited c \<Rightarrow> Some (Exited c)
       | Thrown e \<Rightarrow> Some (Thrown e)
     }"

text \<open>
  The two accumulation loops of \<^verbatim>\<open>FastVolPt\<close>. A loop
  \<^verbatim>\<open>for (m = 0, id = 0; m < n; m += q, id++)\<close> runs \<open>id\<close> over \<open>0, ..., (n - 1) div q\<close>
  with \<open>m = id * q\<close> when \<open>q\<close> is positive, and does not end otherwise (unless \<open>n \<le> 0\<close>).
  \<^verbatim>\<open>tensor.ctrl_pts(i)\<close> is the \<open>i\<close>-th coefficient of the row-major matrix.
\<close>

definition strided :: "int \<Rightarrow> int \<Rightarrow> int list option" where
  "strided n q = (if n \<le> 0 then Some [] else if q \<le> 0 then None else Some [0..(n - 1) div q])"

definition FastVolPt_dim0 :: "Decoder \<Rightarrow> real list \<Rightarrow> real list \<Rightarrow> int \<Rightarrow> real list \<Rightarrow>
    real list option" where
  "FastVolPt_dim0 decoder N0 ctrl start_ctrl_idx t0 =
     do {
       ids \<leftarrow> strided (dec_tot_iters decoder) (dec_q0 decoder);
       for_each ids (\<lambda>id t0. do {
         jm \<leftarrow> read_at (dec_jumps decoder) (id * dec_q0 decoder);
         let ctrl_idx = start_ctrl_idx + jm;
         n \<leftarrow> read_at N0 0;
         c \<leftarrow> read_at ctrl ctrl_idx;
         t0 \<leftarrow> write_at t0 id (n * c);
         for_each [1..dec_q0 decoder - 1] (\<lambda>a t0. do {
           n \<leftarrow> read_at N0 a;
           c \<leftarrow> read_at ctrl (ctrl_idx + a);
           x \<leftarrow> read_at t0 id;
           write_at t0 id (x + n * c)
         }) t0
       }) t0
     }"

definition FastVolPt_dimk :: "int \<Rightarrow> real list \<Rightarrow> real list \<Rightarrow> real list \<Rightarrow> real list option" where
  "FastVolPt_dimk qcur Nk tprev tk =
     do {
       ids \<leftarrow> strided (int (length tprev)) qcur;
       for_each ids (\<lambda>id tk. do {
         n \<leftarrow> read_at Nk 0;
         x \<leftarrow> read_at tprev (id * qcur);
         tk \<leftarrow> write_at tk id (n * x);
         for_each [1..qcur - 1] (\<lambda>l tk. do {
           n \<leftarrow> read_at Nk l;
           x \<leftarrow> read_at tprev (id * qcur + l);
           y \<leftarrow> read_at tk id;
           write_at tk id (y + n * x)
         }) tk
       }) tk
     }"

text \<open>
  \<^verbatim>\<open>FastVolPt\<close> (decode.hpp, 1341-1407). The flags are the macros \<^verbatim>\<open>MFA_TMESH\<close> and
  \<^verbatim>\<open>MFA_NO_WEIGHTS\<close>: with the first defined or the second not defined the function
  prints an error and calls \<^verbatim>\<open>exit(1)\<close>. The model returns the output point.
\<close>

definition FastVolPt_basis :: "MFA_Data \<Rightarrow> real list \<Rightarrow> FastDecodeInfo \<Rightarrow> FastDecodeInfo outcome option" where
  "FastVolPt_basis mfa_data param di =
     for_each [0..md_dom_dim mfa_data - 1] (\<lambda>i r.
       case r of
         Returned di \<Rightarrow> do {
           p \<leftarrow> read_at (md_p mfa_data) i;
           knots \<leftarrow> read_at (all_knots (md_tmesh mfa_data)) i;
           u \<leftarrow> read_at param i;
           spn \<leftarrow> FindSpan_knots p knots u;
           spans \<leftarrow> write_at (di_span di) i spn;
           Ni \<leftarrow> read_at (di_N di) i;
           b \<leftarrow> FastBasisFuns p knots u spn Ni (di_left di) (di_right di);
           case b of
             Returned (Ni', left, right) \<Rightarrow> do {
               N \<leftarrow> write_at (di_N di) i Ni';
               Some (Returned (di\<lparr>di_N := N, di_span := spans, di_left := left, di_right := right\<rparr>))
             }
           | Exited c \<Rightarrow> Some (Exited c)
           | Thrown e \<Rightarrow> Some (Thrown e)
         }
       | Exited c \<Rightarrow> Some (Exited c)
       | Thrown e \<Rightarrow> Some (Thrown e)) (Returned di)"

definition FastVolPt_sums :: "Decoder \<Rightarrow> MFA_Data \<Rightarrow> FastDecodeInfo \<Rightarrow> TensorProduct \<Rightarrow> real list \<Rightarrow>
    real list option" where
  "FastVolPt_sums decoder mfa_data di tensor out_pt =
     do {
       start_ctrl_idx \<leftarrow> for_each [0..md_dom_dim mfa_data - 1] (\<lambda>j s. do {
           sj \<leftarrow> read_at (di_span di) j;
           pj \<leftarrow> read_at (md_p mfa_data) j;
           cj \<leftarrow> read_at (dec_cs decoder) j;
           Some (s + (sj - pj) * cj)
         }) 0;
       N0 \<leftarrow> read_at (di_N di) 0;
       t0 \<leftarrow> read_at (di_t di) 0;
       t0 \<leftarrow> FastVolPt_dim0 decoder N0 (concat (tp_ctrl_pts tensor)) start_ctrl_idx t0;
       t \<leftarrow> write_at (di_t di) 0 t0;
       t \<leftarrow> for_each [1..md_dom_dim mfa_data - 1] (\<lambda>k t. do {
           qcur \<leftarrow> read_at (dec_q decoder) k;
           tprev \<leftarrow> read_at t (k - 1);
           Nk \<leftarrow> read_at (di_N di) k;
           tk \<leftarrow> read_at t k;
           tk \<leftarrow> FastVolPt_dimk qcur Nk tprev tk;
           write_at t k tk
         }) t;
       tlast \<leftarrow> read_at t (md_dom_dim mfa_data - 1);
       v \<leftarrow> read_at tlast 0;
       write_at out_pt 0 v
     }"

definition FastVolPt :: "bool \<Rightarrow> bool \<Rightarrow> Decoder \<Rightarrow> MFA_Data \<Rightarrow> real list \<Rightarrow> real list \<Rightarrow>
    FastDecodeInfo \<Rightarrow> TensorProduct \<Rightarrow> real list outcome option" where
  "FastVolPt mfa_tmesh mfa_no_weights decoder mfa_data param out_pt di tensor =
     (if mfa_tmesh then Some (Exited 1)
      else if \<not> mfa_no_weights then Some (Exited 1)
      else do {
        b \<leftarrow> FastVolPt_basis mfa_data param di;
        case b of
          Returned di \<Rightarrow> do {
            out_pt \<leftarrow> FastVolPt_sums decoder mfa_data di tensor out_pt;
            Some (Returned out_pt)
          }
        | Exited c \<Rightarrow> Some (Exited c)
        | Thrown e \<Rightarrow> Some (Thrown e)
      })"

section \<open>Two models for the evaluation of \<^verbatim>\<open>FastVolPt\<close>\<close>

text \<open>
  A surface of degrees 2 and 3 with the minimal numbers 3 and 4 of control points, one
  science variable, unit weights, clamped knots; the control point \<open>i\<close> has the value
  \<open>i\<close>. \<open>uneq_decoder\<close> and \<open>uneq_di\<close> are what the constructors of \<^verbatim>\<open>Decoder\<close> and
  \<^verbatim>\<open>FastDecodeInfo\<close> build for it. \<open>eq_mfa\<close> is the same with degree 2 in both dimensions.
\<close>

definition uneq_tensor :: TensorProduct where
  "uneq_tensor = \<lparr>tp_knot_mins = [0, 0], tp_knot_maxs = [5, 7], tp_nctrl_pts = [3, 4],
     tp_ctrl_pts = [[0], [1], [2], [3], [4], [5], [6], [7], [8], [9], [10], [11]],
     tp_weights = [1, 1, 1, 1, 1, 1, 1, 1, 1, 1, 1, 1], tp_level = 0\<rparr>"

definition uneq_mfa :: MFA_Data where
  "uneq_mfa = \<lparr>md_dom_dim = 2, md_min_dim = 2, md_max_dim = 2, md_p = [2, 3],
     md_tmesh = \<lparr>tm_p = [2, 3], all_knots = [[0, 0, 0, 1, 1, 1], [0, 0, 0, 0, 1, 1, 1, 1]],
       all_knot_levels = [[0, 0, 0, 0, 0, 0], [0, 0, 0, 0, 0, 0, 0, 0]],
       tensor_prods = [uneq_tensor]\<rparr>\<rparr>"

definition uneq_decoder :: Decoder where
  "uneq_decoder = \<lparr>dec_dom_dim = 2, dec_tot_iters = 12,
     dec_ct = [[0, 0], [1, 0], [2, 0], [0, 1], [1, 1], [2, 1], [0, 2], [1, 2], [2, 2], [0, 3], [1, 3], [2, 3]],
     dec_cs = [1, 3], dec_ds = [1, 4], dec_jumps = [0, 1, 2, 3, 4, 5, 6, 7, 8, 9, 10, 11],
     dec_q0 = 3, dec_q = [3, 4], dec_verbose = 0, dec_saved_basis = False\<rparr>"

definition uneq_di :: FastDecodeInfo where
  "uneq_di = \<lparr>di_N = [[0, 0, 0], [0, 0, 0, 0]], di_t = [[0, 0, 0], [0]], di_span = [0, 0],
     di_left = [0, 0, 0, 0], di_right = [0, 0, 0, 0]\<rparr>"

definition eq_tensor :: TensorProduct where
  "eq_tensor = \<lparr>tp_knot_mins = [0, 0], tp_knot_maxs = [5, 5], tp_nctrl_pts = [3, 3],
     tp_ctrl_pts = [[0], [1], [2], [3], [4], [5], [6], [7], [8]],
     tp_weights = [1, 1, 1, 1, 1, 1, 1, 1, 1], tp_level = 0\<rparr>"

definition eq_mfa :: MFA_Data where
  "eq_mfa = \<lparr>md_dom_dim = 2, md_min_dim = 2, md_max_dim = 2, md_p = [2, 2],
     md_tmesh = \<lparr>tm_p = [2, 2], all_knots = [[0, 0, 0, 1, 1, 1], [0, 0, 0, 1, 1, 1]],
       all_knot_levels = [[0, 0, 0, 0, 0, 0], [0, 0, 0, 0, 0, 0]],
       tensor_prods = [eq_tensor]\<rparr>\<rparr>"

section \<open>Knot insertion into a volume: \<^verbatim>\<open>NewVolKnotIns\<close> and \<^verbatim>\<open>NewKnotInsertion\<close>\<close>

text \<open>
  \<^verbatim>\<open>CtrlPts2CtrlCurve\<close> and \<^verbatim>\<open>CtrlCurve2CtrlPts\<close> (mfa\_data.hpp, 1640-1681) copy one
  curve out of, and into, the full set of control points and weights, with the offset
  \<open>co\<close> and the stride \<open>cs\<close>.
\<close>

definition CtrlPts2CtrlCurve :: "real list list \<Rightarrow> real list \<Rightarrow> int list \<Rightarrow> int \<Rightarrow> int \<Rightarrow> int \<Rightarrow>
    (real list list \<times> real list) option" where
  "CtrlPts2CtrlCurve all_ctrl_pts all_weights nctrl_pts cur_dim co cs =
     do {
       n \<leftarrow> read_at nctrl_pts cur_dim;
       let cols = (case all_ctrl_pts of [] \<Rightarrow> 0 | r # _ \<Rightarrow> length r);
       for_each [0..n - 1] (\<lambda>i (curve_ctrl_pts, curve_weights). do {
         r \<leftarrow> read_at all_ctrl_pts (co + i * cs);
         curve_ctrl_pts' \<leftarrow> write_at curve_ctrl_pts i r;
         w \<leftarrow> read_at all_weights (co + i * cs);
         curve_weights' \<leftarrow> write_at curve_weights i w;
         Some (curve_ctrl_pts', curve_weights')
       }) (replicate (nat n) (replicate cols 0), replicate (nat n) 0)
     }"

definition CtrlCurve2CtrlPts :: "real list list \<Rightarrow> real list \<Rightarrow> real list list \<Rightarrow> real list \<Rightarrow>
    int list \<Rightarrow> int \<Rightarrow> int \<Rightarrow> int \<Rightarrow> (real list list \<times> real list) option" where
  "CtrlCurve2CtrlPts curve_ctrl_pts curve_weights all_ctrl_pts all_weights nctrl_pts cur_dim co cs =
     do {
       n \<leftarrow> read_at nctrl_pts cur_dim;
       for_each [0..n - 1] (\<lambda>i (all_ctrl_pts, all_weights). do {
         r \<leftarrow> read_at curve_ctrl_pts i;
         all_ctrl_pts' \<leftarrow> write_at all_ctrl_pts (co + i * cs) r;
         w \<leftarrow> read_at curve_weights i;
         all_weights' \<leftarrow> write_at all_weights (co + i * cs) w;
         Some (all_ctrl_pts', all_weights')
       }) (all_ctrl_pts, all_weights)
     }"

text \<open>
  The offsets of the curves of one dimension (mfa\_data.hpp, 1349-1364 and 1371-1386):
  \<^verbatim>\<open>co[0] = 0\<close>, then one more than the previous offset inside a run of \<open>cs\<close> curves and
  \<open>cs * n\<close> more than the start of the previous run at the start of a run.
\<close>

definition curve_offsets :: "int \<Rightarrow> int \<Rightarrow> int \<Rightarrow> int list option" where
  "curve_offsets ncurves cs n =
     do {
       co \<leftarrow> write_at (replicate (nat ncurves) 0) 0 0;
       (co, coo) \<leftarrow> for_each [1..ncurves - 1] (\<lambda>j (co, coo).
         if cs = 0 then None
         else if j mod cs \<noteq> 0 then do {
           c \<leftarrow> read_at co (j - 1);
           co' \<leftarrow> write_at co j (c + 1);
           Some (co', coo)
         } else do {
           co' \<leftarrow> write_at co j (coo + cs * n);
           Some (co', coo + cs * n)
         }) (co, 0);
       Some co
     }"

text \<open>
  \<^verbatim>\<open>NewVolKnotIns\<close> (mfa\_data.hpp, 1309-1465), the serial version (\<^verbatim>\<open>MFA_SERIAL\<close>). The
  source calls the curve insertion by the name \<^verbatim>\<open>CurveKnotIns\<close>, and
  \<^verbatim>\<open>NewKnotInsertion\<close> calls the volume insertion by the name \<^verbatim>\<open>VolKnotIns\<close>; the sources
  define no functions of these names, and the calls are taken to be to
  \<^verbatim>\<open>NewCurveKnotIns\<close> and \<^verbatim>\<open>NewVolKnotIns\<close>, whose parameters they match.

  The state of the loop over the dimensions holds the outputs, the second buffer
  \<^verbatim>\<open>new_ctrl_pts1\<close>, \<^verbatim>\<open>new_weights1\<close>, the counts \<^verbatim>\<open>new_nctrl_pts\<close> and the two strides, which
  the source leaves uninitialised until the dimension 0 sets them (0 in the model).
\<close>

text \<open>
  The stride between the control points of a curve (mfa\_data.hpp, 1352 and 1374):
  \<^verbatim>\<open>(k == 0) ? 1 : cs * new_nctrl_pts(k - 1)\<close>.
\<close>

definition curve_stride :: "int \<Rightarrow> int \<Rightarrow> int list \<Rightarrow> int option" where
  "curve_stride k cs counts =
     (if k = 0 then Some 1 else do { m \<leftarrow> read_at counts (k - 1); Some (cs * m) })"

record VolKnotIns_state =
  vs_new_knots :: "real list list"
  vs_new_knot_levels :: "int list list"
  vs_new_ctrl_pts :: "real list list"
  vs_new_weights :: "real list"
  vs_new_ctrl_pts1 :: "real list list"
  vs_new_weights1 :: "real list"
  vs_new_nctrl_pts :: "int list"
  vs_old_cs :: int
  vs_new_cs :: int

definition NewVolKnotIns_curve :: "int \<Rightarrow> real list \<Rightarrow> real list \<Rightarrow> int list \<Rightarrow> real \<Rightarrow> int \<Rightarrow>
    int list \<Rightarrow> int list \<Rightarrow> int \<Rightarrow> real list list \<Rightarrow> real list \<Rightarrow> int \<Rightarrow> int \<Rightarrow> int \<Rightarrow> int \<Rightarrow>
    real list list \<times> real list \<Rightarrow>
    (diag list \<times> (real list \<times> int list \<times> real list list \<times> real list) outcome) option" where
  "NewVolKnotIns_curve p knots old_knots old_knot_levels u level nctrl_pts new_nctrl_pts k
       src_ctrl_pts src_weights old_co old_cs new_co new_cs dst =
     do {
       (old_curve_ctrl_pts, old_curve_weights) \<leftarrow>
         CtrlPts2CtrlCurve src_ctrl_pts src_weights nctrl_pts k old_co old_cs;
       (msgs, r) \<leftarrow> NewCurveKnotIns p knots old_knots old_knot_levels
                     old_curve_ctrl_pts old_curve_weights u level;
       case r of
         Returned (new_knots, new_knot_levels, new_curve_ctrl_pts, new_curve_weights) \<Rightarrow> do {
           (dst_ctrl_pts, dst_weights) \<leftarrow>
             CtrlCurve2CtrlPts new_curve_ctrl_pts new_curve_weights (fst dst) (snd dst)
               new_nctrl_pts k new_co new_cs;
           Some (msgs, Returned (new_knots, new_knot_levels, dst_ctrl_pts, dst_weights))
         }
       | Exited c \<Rightarrow> Some (msgs, Exited c)
       | Thrown e \<Rightarrow> Some (msgs, Thrown e)
     }"

text \<open>
  The loop over the curves of one dimension (mfa\_data.hpp, 1428-1450): every curve is
  copied out of the source buffer, the knot is inserted into it, and the longer curve is
  copied into the destination buffer. Every curve writes the new knots and the new
  levels of the dimension again.
\<close>

definition NewVolKnotIns_curves :: "int \<Rightarrow> real list \<Rightarrow> real list \<Rightarrow> int list \<Rightarrow> real \<Rightarrow> int \<Rightarrow>
    int list \<Rightarrow> int list \<Rightarrow> int \<Rightarrow> real list list \<times> real list \<Rightarrow> int \<Rightarrow> int list \<Rightarrow> int \<Rightarrow>
    int list \<Rightarrow> int \<Rightarrow> real list \<times> int list \<times> real list list \<times> real list \<Rightarrow>
    (diag list \<times> (real list \<times> int list \<times> real list list \<times> real list) outcome) option" where
  "NewVolKnotIns_curves p knots old_knots old_knot_levels u level nctrl_pts new_nctrl_pts k
       src old_ncurves old_co old_cs new_co new_cs init =
     for_each [0..old_ncurves - 1] (\<lambda>j (msgs, r).
       case r of
         Returned (nkk, nlk, dst_ctrl_pts, dst_weights) \<Rightarrow> do {
           oc \<leftarrow> read_at old_co j;
           nc \<leftarrow> read_at new_co j;
           (msgs', r') \<leftarrow> NewVolKnotIns_curve p knots old_knots old_knot_levels u level
               nctrl_pts new_nctrl_pts k (fst src) (snd src) oc old_cs nc new_cs
               (dst_ctrl_pts, dst_weights);
           Some (msgs @ msgs', r')
         }
       | Exited c \<Rightarrow> Some (msgs, Exited c)
       | Thrown e \<Rightarrow> Some (msgs, Thrown e)) ([], Returned init)"

definition NewVolKnotIns_dim :: "int list \<Rightarrow> real list list \<Rightarrow> real list list \<Rightarrow> int list list \<Rightarrow>
    real list \<Rightarrow> int \<Rightarrow> int list \<Rightarrow> int \<Rightarrow> VolKnotIns_state \<Rightarrow>
    (diag list \<times> VolKnotIns_state outcome) option" where
  "NewVolKnotIns_dim p knots old_knots old_knot_levels param level nctrl_pts k st =
     do {
       pk \<leftarrow> read_at p k;
       kn \<leftarrow> read_at knots k;
       okk \<leftarrow> read_at old_knots k;
       olk \<leftarrow> read_at old_knot_levels k;
       u \<leftarrow> read_at param k;
       new_knots \<leftarrow> write_at (vs_new_knots st) k (replicate (length okk + 1) 0);
       new_knot_levels \<leftarrow> write_at (vs_new_knot_levels st) k (replicate (length olk + 1) 0);
       nnk \<leftarrow> read_at (vs_new_nctrl_pts st) k;
       if nnk = 0 \<or> nnk + 1 = 0 then None
       else do {
         let old_ncurves = prod_list (vs_new_nctrl_pts st) sdiv nnk;
         old_cs \<leftarrow> curve_stride k (vs_old_cs st) (vs_new_nctrl_pts st);
         nk \<leftarrow> read_at nctrl_pts k;
         old_co \<leftarrow> curve_offsets old_ncurves old_cs nk;
         new_nctrl_pts \<leftarrow> write_at (vs_new_nctrl_pts st) k (nnk + 1);
         let new_ncurves = prod_list new_nctrl_pts sdiv (nnk + 1);
         new_cs \<leftarrow> curve_stride k (vs_new_cs st) new_nctrl_pts;
         new_co \<leftarrow> curve_offsets new_ncurves new_cs (nnk + 1);
         nkk \<leftarrow> read_at new_knots k;
         nlk \<leftarrow> read_at new_knot_levels k;
         let src = (if k mod 2 = 0 then (vs_new_ctrl_pts1 st, vs_new_weights1 st)
                    else (vs_new_ctrl_pts st, vs_new_weights st));
         let dst = (if k mod 2 = 0 then (vs_new_ctrl_pts st, vs_new_weights st)
                    else (vs_new_ctrl_pts1 st, vs_new_weights1 st));
         (msgs, r) \<leftarrow> NewVolKnotIns_curves pk kn okk olk u level nctrl_pts new_nctrl_pts k
                        src old_ncurves old_co old_cs new_co new_cs (nkk, nlk, fst dst, snd dst);
         case r of
           Returned (nkk, nlk, dst_ctrl_pts, dst_weights) \<Rightarrow> do {
             new_knots \<leftarrow> write_at new_knots k nkk;
             new_knot_levels \<leftarrow> write_at new_knot_levels k nlk;
             Some (msgs, Returned
               (if k mod 2 = 0
                then st\<lparr>vs_new_knots := new_knots, vs_new_knot_levels := new_knot_levels,
                        vs_new_ctrl_pts := dst_ctrl_pts, vs_new_weights := dst_weights,
                        vs_new_nctrl_pts := new_nctrl_pts, vs_old_cs := old_cs, vs_new_cs := new_cs\<rparr>
                else st\<lparr>vs_new_knots := new_knots, vs_new_knot_levels := new_knot_levels,
                        vs_new_ctrl_pts1 := dst_ctrl_pts, vs_new_weights1 := dst_weights,
                        vs_new_nctrl_pts := new_nctrl_pts, vs_old_cs := old_cs, vs_new_cs := new_cs\<rparr>))
           }
         | Exited c \<Rightarrow> Some (msgs, Exited c)
         | Thrown e \<Rightarrow> Some (msgs, Thrown e)
       }
     }"

definition NewVolKnotIns :: "int \<Rightarrow> int list \<Rightarrow> real list list \<Rightarrow> real list list \<Rightarrow> int list list \<Rightarrow>
    real list list \<Rightarrow> real list \<Rightarrow> real list \<Rightarrow> int \<Rightarrow> int list \<Rightarrow>
    (diag list \<times> (real list list \<times> int list list \<times> real list list \<times> real list \<times> int list) outcome)
      option" where
  "NewVolKnotIns dom_dim p knots old_knots old_knot_levels old_ctrl_pts old_weights param level
       nctrl_pts =
     do {
       let rows = prod_list (map (\<lambda>n. n + 1) nctrl_pts);
       let cols = (case old_ctrl_pts of [] \<Rightarrow> 0 | r # _ \<Rightarrow> length r);
       if int (length old_ctrl_pts) > rows \<or> int (length old_weights) > rows then None
       else do {
         let st = \<lparr>vs_new_knots = replicate (nat dom_dim) [],
                   vs_new_knot_levels = replicate (nat dom_dim) [],
                   vs_new_ctrl_pts = replicate (nat rows) (replicate cols 0),
                   vs_new_weights = replicate (nat rows) 0,
                   vs_new_ctrl_pts1 = old_ctrl_pts @
                     replicate (nat rows - length old_ctrl_pts) (replicate cols 0),
                   vs_new_weights1 = old_weights @ replicate (nat rows - length old_weights) 0,
                   vs_new_nctrl_pts = nctrl_pts, vs_old_cs = 0, vs_new_cs = 0\<rparr>;
         (msgs, r) \<leftarrow> for_each [0..dom_dim - 1] (\<lambda>k (msgs, r).
           case r of
             Returned st \<Rightarrow> do {
               (msgs', r') \<leftarrow> NewVolKnotIns_dim p knots old_knots old_knot_levels param level
                                nctrl_pts k st;
               Some (msgs @ msgs', r')
             }
           | Exited c \<Rightarrow> Some (msgs, Exited c)
           | Thrown e \<Rightarrow> Some (msgs, Thrown e)) ([], Returned st);
         case r of
           Returned st \<Rightarrow> Some (msgs, Returned
             (vs_new_knots st, vs_new_knot_levels st,
              (if dom_dim mod 2 = 0 then vs_new_ctrl_pts1 st else vs_new_ctrl_pts st),
              (if dom_dim mod 2 = 0 then vs_new_weights1 st else vs_new_weights st),
              vs_new_nctrl_pts st))
         | Exited c \<Rightarrow> Some (msgs, Exited c)
         | Thrown e \<Rightarrow> Some (msgs, Thrown e)
       }
     }"

text \<open>
  \<^verbatim>\<open>NewKnotInsertion(param, tensor)\<close> (mfa\_data.hpp, 967-1021): the volume insertion on
  the knots of the T-mesh and the control points of the tensor, then the results are
  copied back and \<^verbatim>\<open>knot_maxs\<close> is incremented in every dimension. The model returns the
  new \<^verbatim>\<open>MFA_Data\<close> and the new tensor.
\<close>

definition NewKnotInsertion :: "MFA_Data \<Rightarrow> real list \<Rightarrow> TensorProduct \<Rightarrow>
    (diag list \<times> (MFA_Data \<times> TensorProduct) outcome) option" where
  "NewKnotInsertion mfa_data param tensor =
     do {
       let tm = md_tmesh mfa_data;
       (msgs, r) \<leftarrow> NewVolKnotIns (md_dom_dim mfa_data) (md_p mfa_data) (all_knots tm) (all_knots tm)
          (all_knot_levels tm) (tp_ctrl_pts tensor) (tp_weights tensor) param (tp_level tensor)
          (tp_nctrl_pts tensor);
       case r of
         Returned (new_knots, new_knot_levels, new_ctrl_pts, new_weights, nctrl_pts) \<Rightarrow> do {
           knot_maxs \<leftarrow> for_each [0..md_dom_dim mfa_data - 1]
             (\<lambda>i km. do { x \<leftarrow> read_at km i; write_at km i (x + 1) }) (tp_knot_maxs tensor);
           Some (msgs, Returned
             (mfa_data\<lparr>md_tmesh := tm\<lparr>all_knots := new_knots, all_knot_levels := new_knot_levels\<rparr>\<rparr>,
              tensor\<lparr>tp_ctrl_pts := new_ctrl_pts, tp_weights := new_weights,
                     tp_nctrl_pts := nctrl_pts, tp_knot_maxs := knot_maxs\<rparr>))
         }
       | Exited c \<Rightarrow> Some (msgs, Exited c)
       | Thrown e \<Rightarrow> Some (msgs, Thrown e)
     }"



section \<open>Properties of the span location\<close>

lemma sdiv_2_nonneg: "0 \<le> k \<Longrightarrow> (k::int) sdiv 2 = k div 2"
  by (simp add: signed_divide_int_def sgn_if)

lemma at_in_range: "0 \<le> i \<Longrightarrow> i < int (length xs) \<Longrightarrow> read_at xs i = Some (xs ! nat i)"
  by (simp add: read_at_def)

lemma FindSpan_loop_returns:
  assumes "0 \<le> low" and "low < high" and "high < int (length knots)"
    and "knots ! nat low \<le> u" and "u < knots ! nat high"
  shows "\<exists>i. FindSpan_loop knots u low high ((low + high) sdiv 2) = Some i \<and>
             low \<le> i \<and> i < high \<and> knots ! nat i \<le> u \<and> u < knots ! nat (i + 1)"
  using assms
proof (induction "nat (high - low)" arbitrary: low high rule: less_induct)
  case less
  define mid where "mid = (low + high) div 2"
  have mid_eq: "(low + high) sdiv 2 = mid"
    using less.prems by (simp add: mid_def sdiv_2_nonneg)
  have mid_bounds: "low \<le> mid" "mid < high"
    using less.prems by (simp_all add: mid_def)
  have at_mid: "read_at knots mid = Some (knots ! nat mid)"
    using mid_bounds less.prems by (intro at_in_range) simp_all
  have at_mid1: "read_at knots (mid + 1) = Some (knots ! nat (mid + 1))"
    using mid_bounds less.prems by (intro at_in_range) simp_all
  show ?case
  proof (cases "u < knots ! nat mid")
    case True
    then have "low \<noteq> mid" using less.prems by auto
    then have lt: "low < mid" using mid_bounds by simp
    have "\<exists>i. FindSpan_loop knots u low mid ((low + mid) sdiv 2) = Some i \<and>
             low \<le> i \<and> i < mid \<and> knots ! nat i \<le> u \<and> u < knots ! nat (i + 1)"
      using less.prems lt mid_bounds True by (intro less.hyps) simp_all
    then obtain i where i: "FindSpan_loop knots u low mid ((low + mid) sdiv 2) = Some i"
      "low \<le> i" "i < mid" "knots ! nat i \<le> u" "u < knots ! nat (i + 1)" by blast
    have "FindSpan_loop knots u low high mid = Some i"
      by (subst FindSpan_loop.simps) (simp add: at_mid True i(1))
    then show ?thesis using i mid_bounds by (auto simp: mid_eq)
  next
    case False
    show ?thesis
    proof (cases "u \<ge> knots ! nat (mid + 1)")
      case ge: True
      have "mid + 1 \<noteq> high" using ge less.prems by auto
      then have lt: "mid + 1 < high" using mid_bounds by simp
      have "low < mid"
      proof (rule ccontr)
        assume "\<not> low < mid"
        then have "low = mid" using mid_bounds by simp
        then have "high = low + 1 \<or> high = low" using less.prems by (auto simp: mid_def)
        then show False using lt \<open>low = mid\<close> by auto
      qed
      have "\<exists>i. FindSpan_loop knots u mid high ((mid + high) sdiv 2) = Some i \<and>
             mid \<le> i \<and> i < high \<and> knots ! nat i \<le> u \<and> u < knots ! nat (i + 1)"
        using less.prems \<open>low < mid\<close> mid_bounds False by (intro less.hyps) simp_all
      then obtain i where i: "FindSpan_loop knots u mid high ((mid + high) sdiv 2) = Some i"
        "mid \<le> i" "i < high" "knots ! nat i \<le> u" "u < knots ! nat (i + 1)" by blast
      have "FindSpan_loop knots u low high mid = Some i"
        by (subst FindSpan_loop.simps) (simp add: at_mid at_mid1 False ge i(1))
      then show ?thesis using i mid_bounds by (auto simp: mid_eq)
    next
      case lt: False
      have "FindSpan_loop knots u low high mid = Some mid"
        by (subst FindSpan_loop.simps) (simp add: at_mid at_mid1 False lt)
      then show ?thesis using mid_bounds False lt by (auto simp: mid_eq)
    qed
  qed
qed

lemma FindSpan_returns_span:
  assumes "0 \<le> p" and "p < nctrl_pts" and "nctrl_pts < int (length knots)"
    and "knots ! nat p \<le> u" and "u \<le> knots ! nat nctrl_pts"
  shows "\<exists>i. FindSpan p knots u nctrl_pts = Some i \<and> p \<le> i \<and> i \<le> nctrl_pts - 1 \<and>
           (u = knots ! nat nctrl_pts \<longrightarrow> i = nctrl_pts - 1) \<and>
           (u \<noteq> knots ! nat nctrl_pts \<longrightarrow> knots ! nat i \<le> u \<and> u < knots ! nat (i + 1))"
proof -
  have at_n: "read_at knots nctrl_pts = Some (knots ! nat nctrl_pts)"
    using assms by (intro at_in_range) simp_all
  show ?thesis
  proof (cases "u = knots ! nat nctrl_pts")
    case True
    then show ?thesis using assms by (simp add: FindSpan_def at_n)
  next
    case False
    then have "u < knots ! nat nctrl_pts" using assms by simp
    from FindSpan_loop_returns [OF assms(1) assms(2) assms(3) assms(4) this]
    obtain i where i: "FindSpan_loop knots u p nctrl_pts ((p + nctrl_pts) sdiv 2) = Some i"
      "p \<le> i" "i < nctrl_pts" "knots ! nat i \<le> u" "u < knots ! nat (i + 1)" by blast
    then show ?thesis using False by (simp add: FindSpan_def at_n)
  qed
qed

text \<open>
  C2. On a knot vector with more than \<open>nctrl_pts\<close> entries, for a degree
  \<open>0 \<le> p < nctrl_pts\<close> and every parameter \<open>u\<close> with
  \<open>knots[p] \<le> u \<le> knots[nctrl_pts]\<close>, \<^verbatim>\<open>FindSpan\<close> returns (the loop ends and no
  read leaves the vector) an index \<open>i\<close> with \<open>p \<le> i \<le> nctrl_pts - 1\<close>; for
  \<open>u = knots[nctrl_pts]\<close> it is \<open>nctrl_pts - 1\<close>, and for every other \<open>u\<close> it satisfies
  \<open>knots[i] \<le> u < knots[i + 1]\<close>. Every non-decreasing clamped knot vector of length
  \<open>nctrl_pts + p + 1\<close> satisfies the hypotheses; they are all the proof needs.
\<close>

theorem FindSpan_locates_span:
  assumes "0 \<le> p" and "p < nctrl_pts" and "nctrl_pts < int (length knots)"
    and "knots ! nat p \<le> u" and "u \<le> knots ! nat nctrl_pts"
  shows "\<exists>i. FindSpan p knots u nctrl_pts = Some i \<and> p \<le> i \<and> i \<le> nctrl_pts - 1 \<and>
           (u = knots ! nat nctrl_pts \<longrightarrow> i = nctrl_pts - 1) \<and>
           (u \<noteq> knots ! nat nctrl_pts \<longrightarrow> knots ! nat i \<le> u \<and> u < knots ! nat (i + 1))"
  using assms by (rule FindSpan_returns_span)

theorem FindSpan_locates_span_witness:
  "FindSpan 2 [0, 0, 0, 1/2, 1, 1, 1] (3/10) 4 = Some 2 \<and>
   FindSpan 2 [0, 0, 0, 1/2, 1, 1, 1] 1 4 = Some 3"
proof -
  let ?k = "[0, 0, 0, 1/2, 1, 1, 1] :: real list"
  from FindSpan_locates_span [of 2 4 ?k "3/10"]
  obtain i where i: "FindSpan 2 ?k (3/10) 4 = Some i" "2 \<le> i" "i \<le> 3" "?k ! nat i \<le> 3/10"
    by auto
  have "i = 2 \<or> i = 3" using i(2,3) by auto
  then have "i = 2" using i(4) by auto
  moreover from FindSpan_locates_span [of 2 4 ?k 1]
  have "FindSpan 2 ?k 1 4 = Some 3" by auto
  ultimately show ?thesis using i(1) by simp
qed

section \<open>Precondition violations end the process\<close>

lemma Quants_dims_exits:
  assumes "\<forall>i \<in> set idxs. 0 \<le> i \<and> i < int (length p)"
    and "length ndom_pts = length p" and "length nctrl_pts = length p"
    and "\<exists>i \<in> set idxs. nctrl_pts ! nat i \<le> p ! nat i"
  shows "\<exists>msgs' k. Quants_dims p ndom_pts nctrl_pts idxs msgs = Some (msgs' @ [Err_nctrl_pts_too_few k], Exited 1)
            \<and> 0 \<le> k \<and> k < int (length p) \<and> nctrl_pts ! nat k \<le> p ! nat k"
  using assms
proof (induction idxs arbitrary: msgs)
  case Nil
  then show ?case by simp
next
  case (Cons i idxs)
  have rng: "0 \<le> i" "i < int (length p)" using Cons.prems(1) by auto
  have rd: "read_at nctrl_pts i = Some (nctrl_pts ! nat i)" "read_at p i = Some (p ! nat i)"
    "read_at ndom_pts i = Some (ndom_pts ! nat i)"
    using rng Cons.prems(2,3) by (simp_all add: at_in_range)
  show ?case
  proof (cases "nctrl_pts ! nat i \<le> p ! nat i")
    case True
    then show ?thesis using rng by (auto simp: rd)
  next
    case False
    then have ex: "\<exists>i \<in> set idxs. nctrl_pts ! nat i \<le> p ! nat i" using Cons.prems(4) by auto
    have all: "\<forall>i \<in> set idxs. 0 \<le> i \<and> i < int (length p)" using Cons.prems(1) by auto
    show ?thesis
      using False Cons.IH [OF all Cons.prems(2) Cons.prems(3) ex] by (simp add: rd)
  qed
qed

text \<open>
  C1 (as amended). Each precondition violation is met by a guard that writes an error
  message and ends the process with \<^verbatim>\<open>exit\<close>; no error value and no exception reaches
  the caller. When some dimension has \<open>nctrl_pts[k] \<le> p[k]\<close>, \<^verbatim>\<open>Quants\<close> exits with
  status 1 after the message for the first such dimension; when \<^verbatim>\<open>derivs\<close> is not empty
  and its size is not the number of domain dimensions, \<^verbatim>\<open>VolPt\<close> exits with status 0;
  when the model has a degree vector but no knots, no tensor product, or a first tensor
  product without control points, the \<^verbatim>\<open>Decoder\<close> constructor exits with status 0.
\<close>

theorem precondition_violations_exit:
  "(length ndom_pts = length p \<and> length nctrl_pts = length p \<and>
      (\<exists>k < length p. nctrl_pts ! k \<le> p ! k) \<longrightarrow>
      (\<exists>msgs k. Quants p ndom_pts nctrl_pts = Some (msgs @ [Err_nctrl_pts_too_few k], Exited 1)
          \<and> 0 \<le> k \<and> k < int (length p) \<and> nctrl_pts ! nat k \<le> p ! nat k)) \<and>
   (length derivs \<noteq> 0 \<and> int (length derivs) \<noteq> md_dom_dim mfa_data \<longrightarrow>
      VolPt_derivs_check mfa_data derivs = Some ([Err_derivs_size], Exited 0)) \<and>
   (md_p mfa_data' \<noteq> [] \<and>
      (all_knots (md_tmesh mfa_data') = [] \<or> tensor_prods (md_tmesh mfa_data') = [] \<or>
       tp_nctrl_pts (tensor_prods (md_tmesh mfa_data') ! 0) = [] \<or>
       mat_size (tp_ctrl_pts (tensor_prods (md_tmesh mfa_data') ! 0)) = 0) \<longrightarrow>
      Decoder_ctor mfa_data' verbose saved_basis = Some ([Err_decode_before_encode], Exited 0))"
proof (intro conjI impI)
  assume a: "length ndom_pts = length p \<and> length nctrl_pts = length p \<and>
      (\<exists>k < length p. nctrl_pts ! k \<le> p ! k)"
  then obtain k where k: "k < length p" "nctrl_pts ! k \<le> p ! k" by blast
  have "int k \<in> set [0..int (length p) - 1]" using k by simp
  then have ex: "\<exists>i \<in> set [0..int (length p) - 1]. nctrl_pts ! nat i \<le> p ! nat i"
    using k(2) by (intro bexI [of _ "int k"]) simp_all
  have all: "\<forall>i \<in> set [0..int (length p) - 1]. 0 \<le> i \<and> i < int (length p)" by simp
  from Quants_dims_exits [OF all _ _ ex, of ndom_pts "[]"] a
  obtain msgs' k' where r: "Quants_dims p ndom_pts nctrl_pts [0..int (length p) - 1] [] =
      Some (msgs' @ [Err_nctrl_pts_too_few k'], Exited 1)"
    "0 \<le> k'" "k' < int (length p)" "nctrl_pts ! nat k' \<le> p ! nat k'" by blast
  show "\<exists>msgs k. Quants p ndom_pts nctrl_pts = Some (msgs @ [Err_nctrl_pts_too_few k], Exited 1)
          \<and> 0 \<le> k \<and> k < int (length p) \<and> nctrl_pts ! nat k \<le> p ! nat k"
    using a r by (auto simp: Quants_def)
next
  assume "length derivs \<noteq> 0 \<and> int (length derivs) \<noteq> md_dom_dim mfa_data"
  then show "VolPt_derivs_check mfa_data derivs = Some ([Err_derivs_size], Exited 0)"
    by (simp add: VolPt_derivs_check_def)
next
  assume a: "md_p mfa_data' \<noteq> [] \<and>
      (all_knots (md_tmesh mfa_data') = [] \<or> tensor_prods (md_tmesh mfa_data') = [] \<or>
       tp_nctrl_pts (tensor_prods (md_tmesh mfa_data') ! 0) = [] \<or>
       mat_size (tp_ctrl_pts (tensor_prods (md_tmesh mfa_data') ! 0)) = 0)"
  then have "read_at (md_p mfa_data') 0 = Some (md_p mfa_data' ! 0)"
    by (simp add: read_at_def)
  then show "Decoder_ctor mfa_data' verbose saved_basis = Some ([Err_decode_before_encode], Exited 0)"
    using a by (auto simp: Decoder_ctor_def Let_def)
qed

theorem precondition_violations_exit_witness:
  "Quants [2] [10] [2] = Some ([Err_nctrl_pts_too_few 0], Exited 1) \<and>
   VolPt_derivs_check (MFA_Data_ctor [2, 2] [3, 3] 0 0) [1] = Some ([Err_derivs_size], Exited 0) \<and>
   Decoder_ctor (MFA_Data_ctor [2] [3] 0 0) 0 False = Some ([Err_decode_before_encode], Exited 0)"
proof -
  have 1: "Quants [2] [10] [2] = Some ([Err_nctrl_pts_too_few 0], Exited 1)"
    by (simp add: Quants_def read_at_def)
  have 2: "VolPt_derivs_check (MFA_Data_ctor [2, 2] [3, 3] 0 0) [1] = Some ([Err_derivs_size], Exited 0) \<and>
    Decoder_ctor (MFA_Data_ctor [2] [3] 0 0) 0 False = Some ([Err_decode_before_encode], Exited 0)"
    using precondition_violations_exit [of "[10]" "[2]" "[2]" "[1]" "MFA_Data_ctor [2, 2] [3, 3] 0 0"
        "MFA_Data_ctor [2] [3] 0 0" 0 False]
    by (simp add: MFA_Data_ctor_def init_knots_def Tmesh_ctor_def default_nctrl_pts_def)
  show ?thesis using 1 2 by simp
qed

text \<open>
  C1 as stated fails: at these inputs (two control points for degree 2; one derivative
  order for two domain dimensions; a model with knots but no tensor product) the calls
  end the process, with status 1, 0 and 0, and hand no failure to the caller.
\<close>

theorem precondition_violation_counterexample:
  "Quants [2] [10] [2] = Some ([Err_nctrl_pts_too_few 0], Exited 1) \<and>
   VolPt_derivs_check \<lparr>md_dom_dim = 2, md_min_dim = 0, md_max_dim = 0, md_p = [2, 2],
       md_tmesh = \<lparr>tm_p = [2, 2], all_knots = [], all_knot_levels = [], tensor_prods = []\<rparr>\<rparr> [1]
     = Some ([Err_derivs_size], Exited 0) \<and>
   Decoder_ctor \<lparr>md_dom_dim = 1, md_min_dim = 0, md_max_dim = 0, md_p = [2],
       md_tmesh = \<lparr>tm_p = [2], all_knots = [[0, 0, 0, 1, 1, 1]],
                  all_knot_levels = [[0, 0, 0, 0, 0, 0]], tensor_prods = []\<rparr>\<rparr> 0 False
     = Some ([Err_decode_before_encode], Exited 0)"
  by (simp add: Quants_def VolPt_derivs_check_def Decoder_ctor_def read_at_def)

section \<open>The constructor of \<^verbatim>\<open>MFA_Data\<close>\<close>

text \<open>
  C10. Given a size-0 \<^verbatim>\<open>nctrl_pts_\<close>, the constructor sets the number of control points
  of every dimension \<open>k\<close> to \<open>p(k) + 1\<close> before it initialises the knots, and the knot
  vector of dimension \<open>k\<close> then has \<open>2 * (p(k) + 1)\<close> entries (degrees are not
  negative). The length of the knot vector is that of \<open>init_knots\<close>, modelled from the
  spec.
\<close>

theorem MFA_Data_ctor_default_nctrl_pts:
  assumes "k < length p_in" and "0 \<le> p_in ! k"
  shows "default_nctrl_pts p_in [] ! k = p_in ! k + 1 \<and>
         int (length (all_knots (md_tmesh (MFA_Data_ctor p_in [] min_dim_in max_dim_in)) ! k))
           = 2 * (p_in ! k + 1)"
  using assms
  by (simp add: default_nctrl_pts_def MFA_Data_ctor_def init_knots_def Tmesh_ctor_def)

theorem MFA_Data_ctor_default_nctrl_pts_witness:
  "default_nctrl_pts [3, 2] [] = [4, 3] \<and>
   map length (all_knots (md_tmesh (MFA_Data_ctor [3, 2] [] (-1) (-1)))) = [8, 6]"
proof -
  have "default_nctrl_pts [3, 2] [] ! 1 = 3 \<and>
        int (length (all_knots (md_tmesh (MFA_Data_ctor [3, 2] [] (-1) (-1))) ! 1)) = 6"
    using MFA_Data_ctor_default_nctrl_pts [of 1 "[3, 2]" "-1" "-1"] by simp
  moreover have "default_nctrl_pts [3, 2] [] = [4, 3]"
    by (simp add: default_nctrl_pts_def upt_rec)
  ultimately show ?thesis
    by (simp add: MFA_Data_ctor_def init_knots_def Tmesh_ctor_def)
qed


section \<open>Zero rational denominators\<close>

lemma VolPt_tmesh_zero_denominator:
  "B_sum = 0 \<Longrightarrow> VolPt_tmesh_normalize out_pt B_sum = (out_pt, [Warn_B_sum_zero])"
  by (simp add: VolPt_tmesh_normalize_def)

lemma RHS_denom_unclamped_fallback:
  "i < length N \<Longrightarrow> sum_list (map2 (*) (N ! i) weights) = 0 \<Longrightarrow>
     RHS_denom True N weights ! i = 1"
  by (simp add: RHS_denom_def)

lemma VolPt_normalize_no_diagnostic:
  "VolPt_normalize derivs temp temp_denom dom_dim last_col = Some (out_pt, msgs) \<Longrightarrow> msgs = []"
  by (auto simp: VolPt_normalize_def split: Option.bind_splits if_splits)

text \<open>
  C6. With a zero denominator \<^verbatim>\<open>VolPt_tmesh\<close> warns and leaves the point unscaled, and
  \<^verbatim>\<open>RHS\<close> replaces the denominator by 1 under \<^verbatim>\<open>UNCLAMPED_KNOTS\<close> (the two lemmas
  above). \<^verbatim>\<open>VolPt\<close> does neither: for the accumulated point \<open>[3]\<close> and the accumulated
  denominator 0 it writes no diagnostic and divides, so the range coordinate is not a
  finite number, where \<^verbatim>\<open>VolPt_tmesh\<close> returns \<open>[3]\<close> with a warning.
\<close>

theorem VolPt_divides_by_zero_denominator:
  "VolPt_normalize [] [[3]] [0] 1 0 = Some ([Not_finite], []) \<and>
   VolPt_tmesh_normalize [3] 0 = ([3], [Warn_B_sum_zero])"
  by (simp add: VolPt_normalize_def VolPt_tmesh_normalize_def read_at_def write_at_def fdiv_def)

section \<open>Rules for the loops\<close>

lemma for_each_upto_rule:
  assumes "I lo s"
    and "\<And>i s. lo \<le> i \<Longrightarrow> i \<le> hi \<Longrightarrow> I i s \<Longrightarrow> \<exists>s'. body i s = Some s' \<and> I (i + 1) s'"
  shows "\<exists>s'. for_each [lo..hi] body s = Some s' \<and> I (max lo (hi + 1)) s'"
  using assms
proof (induction "nat (hi + 1 - lo)" arbitrary: lo s)
  case 0
  then have "max lo (hi + 1) = lo" by simp
  then show ?case using 0 by simp
next
  case (Suc n)
  then have le: "lo \<le> hi" by simp
  from Suc.prems(2) [OF _ le Suc.prems(1)] obtain s1 where
    s1: "body lo s = Some s1" "I (lo + 1) s1" by auto
  have n: "n = nat (hi + 1 - (lo + 1))" using Suc.hyps(2) by simp
  have "\<exists>s'. for_each [lo + 1..hi] body s1 = Some s' \<and> I (max (lo + 1) (hi + 1)) s'"
  proof (rule Suc.hyps(1) [OF n s1(2)])
    fix i s assume "lo + 1 \<le> i" "i \<le> hi" "I i s"
    then show "\<exists>s'. body i s = Some s' \<and> I (i + 1) s'"
      using Suc.prems(2) [of i s] by simp
  qed
  then obtain s' where "for_each [lo + 1..hi] body s1 = Some s'" "I (max (lo + 1) (hi + 1)) s'"
    by blast
  then show ?case using le s1(1) by (simp add: upto_rec1 [of lo hi] max_def)
qed

lemma copy2_upto:
  assumes "lo \<le> hi \<Longrightarrow> 0 \<le> lo + dst \<and> hi + dst < int (length d1) \<and> hi + dst < int (length d2) \<and>
             0 \<le> lo + src \<and> hi + src < int (length s1) \<and> hi + src < int (length s2)"
  shows "\<exists>e1 e2. copy2 [lo..hi] dst src s1 s2 (d1, d2) = Some (e1, e2) \<and>
           length e1 = length d1 \<and> length e2 = length d2 \<and>
           (\<forall>j. e1 ! j = (if lo + dst \<le> int j \<and> int j \<le> hi + dst
                           then s1 ! nat (int j - dst + src) else d1 ! j)) \<and>
           (\<forall>j. e2 ! j = (if lo + dst \<le> int j \<and> int j \<le> hi + dst
                           then s2 ! nat (int j - dst + src) else d2 ! j))"
proof -
  let ?I = "\<lambda>i (e :: 'a list \<times> 'b list).
      length (fst e) = length d1 \<and> length (snd e) = length d2 \<and>
      (\<forall>j. fst e ! j = (if lo + dst \<le> int j \<and> int j < i + dst
                           then s1 ! nat (int j - dst + src) else d1 ! j)) \<and>
      (\<forall>j. snd e ! j = (if lo + dst \<le> int j \<and> int j < i + dst
                           then s2 ! nat (int j - dst + src) else d2 ! j))"
  let ?body = "\<lambda>i (d1, d2). do {
       x \<leftarrow> read_at s1 (i + src);
       d1' \<leftarrow> write_at d1 (i + dst) x;
       y \<leftarrow> read_at s2 (i + src);
       d2' \<leftarrow> write_at d2 (i + dst) y;
       Some (d1', d2')
     }"
  have init: "?I lo (d1, d2)" by auto
  have step: "\<exists>s'. ?body i s = Some s' \<and> ?I (i + 1) s'" if "lo \<le> i" "i \<le> hi" "?I i s" for i s
  proof -
    obtain e1 e2 where s: "s = (e1, e2)" by (cases s)
    have rng: "0 \<le> lo + dst" "hi + dst < int (length d1)" "hi + dst < int (length d2)"
      "0 \<le> lo + src" "hi + src < int (length s1)" "hi + src < int (length s2)"
      using assms that by auto
    have len: "length e1 = length d1" "length e2 = length d2" using that(3) s by auto
    have r: "read_at s1 (i + src) = Some (s1 ! nat (i + src))"
      "read_at s2 (i + src) = Some (s2 ! nat (i + src))"
      using rng that by (auto simp: read_at_def)
    have w: "write_at e1 (i + dst) x = Some (e1[nat (i + dst) := x])"
      "write_at e2 (i + dst) y = Some (e2[nat (i + dst) := y])" for x y
      using rng that len by (auto simp: write_at_def)
    have "?I (i + 1) (e1[nat (i + dst) := s1 ! nat (i + src)], e2[nat (i + dst) := s2 ! nat (i + src)])"
    proof (intro conjI allI)
      fix j
      show "fst (e1[nat (i + dst) := s1 ! nat (i + src)], e2[nat (i + dst) := s2 ! nat (i + src)]) ! j =
        (if lo + dst \<le> int j \<and> int j < i + 1 + dst then s1 ! nat (int j - dst + src) else d1 ! j)"
      proof (cases "j = nat (i + dst)")
        case True
        then have "int j = i + dst" using rng that by simp
        then show ?thesis using True rng that len by simp
      next
        case False
        then have "int j \<noteq> i + dst" using rng that by auto
        then show ?thesis using False that(3) s by auto
      qed
      show "snd (e1[nat (i + dst) := s1 ! nat (i + src)], e2[nat (i + dst) := s2 ! nat (i + src)]) ! j =
        (if lo + dst \<le> int j \<and> int j < i + 1 + dst then s2 ! nat (int j - dst + src) else d2 ! j)"
      proof (cases "j = nat (i + dst)")
        case True
        then have "int j = i + dst" using rng that by simp
        then show ?thesis using True rng that len by simp
      next
        case False
        then have "int j \<noteq> i + dst" using rng that by auto
        then show ?thesis using False that(3) s by auto
      qed
    qed (simp_all add: len)
    then show ?thesis by (simp add: s r w)
  qed
  from for_each_upto_rule [of ?I lo "(d1, d2)" hi ?body, OF init step]
  obtain s' where s': "for_each [lo..hi] ?body (d1, d2) = Some s'" "?I (max lo (hi + 1)) s'"
    by blast
  obtain e1 e2 where e: "s' = (e1, e2)" by (cases s')
  have "copy2 [lo..hi] dst src s1 s2 (d1, d2) = Some (e1, e2)"
    using s'(1) e by (simp add: copy2_def)
  moreover have "(lo + dst \<le> int j \<and> int j < max lo (hi + 1) + dst) =
        (lo + dst \<le> int j \<and> int j \<le> hi + dst)" for j
    by (auto simp: max_def)
  ultimately show ?thesis using s'(2) e by auto
qed

lemma insert_loop_result:
  assumes "0 \<le> p" and "int (length tc) = p + 1" and "int (length tw) = p + 1"
    and "0 \<le> L" and "L + p - 1 < int (length old_knots)"
    and "0 \<le> spn + 1" and "spn + p < int (length old_knots)"
  shows "\<exists>tc' tw'. insert_loop p spn L old_knots u (tc, tw) = Some (tc', tw') \<and>
           length tc' = length tc \<and> length tw' = length tw \<and>
           (\<forall>j. tc' ! j = (if int j < p
              then affine_row ((u - old_knots ! nat (L + int j)) /
                     (old_knots ! nat (int j + spn + 1) - old_knots ! nat (L + int j)))
                     (tc ! (j + 1)) (tc ! j)
              else tc ! j)) \<and>
           (\<forall>j. tw' ! j = (if int j < p
              then ((u - old_knots ! nat (L + int j)) /
                     (old_knots ! nat (int j + spn + 1) - old_knots ! nat (L + int j))) * tw ! (j + 1)
                   + (1 - (u - old_knots ! nat (L + int j)) /
                     (old_knots ! nat (int j + spn + 1) - old_knots ! nat (L + int j))) * tw ! j
              else tw ! j))"
proof -
  define al where "al = (\<lambda>j. (u - old_knots ! nat (L + int j)) /
                     (old_knots ! nat (int j + spn + 1) - old_knots ! nat (L + int j)))"
  let ?I = "\<lambda>i (e :: real list list \<times> real list).
      length (fst e) = length tc \<and> length (snd e) = length tw \<and>
      (\<forall>j. fst e ! j = (if int j < i then affine_row (al j) (tc ! (j + 1)) (tc ! j) else tc ! j)) \<and>
      (\<forall>j. snd e ! j = (if int j < i then al j * tw ! (j + 1) + (1 - al j) * tw ! j else tw ! j))"
  let ?body = "\<lambda>i (temp_ctrl_pts, temp_weights). do {
       a \<leftarrow> read_at old_knots (L + i);
       b \<leftarrow> read_at old_knots (i + spn + 1);
       let alpha = (u - a) / (b - a);
       r1 \<leftarrow> read_at temp_ctrl_pts (i + 1);
       r0 \<leftarrow> read_at temp_ctrl_pts i;
       temp_ctrl_pts' \<leftarrow> write_at temp_ctrl_pts i (affine_row alpha r1 r0);
       w1 \<leftarrow> read_at temp_weights (i + 1);
       w0 \<leftarrow> read_at temp_weights i;
       temp_weights' \<leftarrow> write_at temp_weights i (alpha * w1 + (1 - alpha) * w0);
       Some (temp_ctrl_pts', temp_weights')
     }"
  have init: "?I 0 (tc, tw)" by auto
  have step: "\<exists>s'. ?body i s = Some s' \<and> ?I (i + 1) s'" if "0 \<le> i" "i \<le> p - 1" "?I i s" for i s
  proof -
    obtain e1 e2 where s: "s = (e1, e2)" by (cases s)
    have len: "length e1 = length tc" "length e2 = length tw" using that(3) s by auto
    have e1: "e1 ! nat (i + 1) = tc ! nat (i + 1)" "e1 ! nat i = tc ! nat i"
      and e2: "e2 ! nat (i + 1) = tw ! nat (i + 1)" "e2 ! nat i = tw ! nat i"
      using that s by auto
    have al_i: "(u - old_knots ! nat (L + i)) / (old_knots ! nat (i + spn + 1) - old_knots ! nat (L + i))
         = al (nat i)"
      using that by (simp add: al_def)
    have r: "read_at old_knots (L + i) = Some (old_knots ! nat (L + i))"
      "read_at old_knots (i + spn + 1) = Some (old_knots ! nat (i + spn + 1))"
      "read_at e1 (i + 1) = Some (tc ! nat (i + 1))" "read_at e1 i = Some (tc ! nat i)"
      "read_at e2 (i + 1) = Some (tw ! nat (i + 1))" "read_at e2 i = Some (tw ! nat i)"
      using assms that len e1 e2 by (auto simp: read_at_def)
    have w: "write_at e1 i x = Some (e1[nat i := x])" "write_at e2 i y = Some (e2[nat i := y])" for x y
      using assms that len by (auto simp: write_at_def)
    let ?e1 = "e1[nat i := affine_row (al (nat i)) (tc ! nat (i + 1)) (tc ! nat i)]"
    let ?e2 = "e2[nat i := al (nat i) * tw ! nat (i + 1) + (1 - al (nat i)) * tw ! nat i]"
    have suc: "nat (i + 1) = nat i + 1" using that by simp
    have "?I (i + 1) (?e1, ?e2)"
    proof (intro conjI allI)
      fix j
      show "fst (?e1, ?e2) ! j =
        (if int j < i + 1 then affine_row (al j) (tc ! (j + 1)) (tc ! j) else tc ! j)"
      proof (cases "j = nat i")
        case True
        then show ?thesis using that len assms suc by simp
      next
        case False
        then have "int j \<noteq> i" using that by auto
        then show ?thesis using False that(3) s by auto
      qed
      show "snd (?e1, ?e2) ! j =
        (if int j < i + 1 then al j * tw ! (j + 1) + (1 - al j) * tw ! j else tw ! j)"
      proof (cases "j = nat i")
        case True
        then show ?thesis using that len assms suc by simp
      next
        case False
        then have "int j \<noteq> i" using that by auto
        then show ?thesis using False that(3) s by auto
      qed
    qed (simp_all add: len)
    then show ?thesis by (simp add: s r w al_i [symmetric] Let_def)
  qed
  from for_each_upto_rule [of ?I 0 "(tc, tw)" "p - 1" ?body, OF init step]
  obtain s' where s': "for_each [0..p - 1] ?body (tc, tw) = Some s'" "?I (max 0 (p - 1 + 1)) s'"
    by blast
  obtain e1 e2 where e: "s' = (e1, e2)" by (cases s')
  have "insert_loop p spn L old_knots u (tc, tw) = Some (e1, e2)"
    using s'(1) e by (simp add: insert_loop_def)
  moreover have "max 0 (p - 1 + 1) = p" using assms(1) by simp
  ultimately show ?thesis using s'(2) e unfolding al_def by auto
qed

lemma copy2_copied:
  assumes "lo \<le> hi \<Longrightarrow> 0 \<le> lo + dst \<and> hi + dst < int (length d1) \<and> hi + dst < int (length d2) \<and>
             0 \<le> lo + src \<and> hi + src < int (length s1) \<and> hi + src < int (length s2)"
  shows "\<exists>e1 e2. copy2 [lo..hi] dst src s1 s2 (d1, d2) = Some (e1, e2) \<and>
           copied lo hi dst src s1 d1 e1 \<and> copied lo hi dst src s2 d2 e2"
  using copy2_upto [OF assms] unfolding copied_def by blast

lemma insert_loop_inserted:
  assumes "0 \<le> p" and "int (length tc) = p + 1" and "int (length tw) = p + 1"
    and "0 \<le> L" and "L + p - 1 < int (length old_knots)"
    and "0 \<le> spn + 1" and "spn + p < int (length old_knots)"
  shows "\<exists>tc' tw'. insert_loop p spn L old_knots u (tc, tw) = Some (tc', tw') \<and>
           inserted p (\<lambda>j. (u - old_knots ! nat (L + int j)) /
                     (old_knots ! nat (int j + spn + 1) - old_knots ! nat (L + int j)))
              affine_row tc tc' \<and>
           inserted p (\<lambda>j. (u - old_knots ! nat (L + int j)) /
                     (old_knots ! nat (int j + spn + 1) - old_knots ! nat (L + int j)))
              (\<lambda>a x y. a * x + (1 - a) * y) tw tw'"
  using insert_loop_result [OF assms, of u] unfolding inserted_def by blast

section \<open>Knot insertion into a curve\<close>

lemma NewCurveKnotIns_result:
  fixes old_ctrl_pts :: "real list list"
  assumes p1: "1 \<le> p"
    and fs: "FindSpan p knots u (int (length old_ctrl_pts)) = Some i"
    and ip: "p \<le> i" and ilt: "i < int (length old_ctrl_pts)"
    and ik: "i < int (length knots)"
    and nu: "knots ! nat i \<noteq> u"
    and lk: "int (length old_knots) = int (length old_ctrl_pts) + p + 1"
    and ll: "length old_knot_levels = length old_knots"
    and lw: "length old_weights = length old_ctrl_pts"
  shows "\<exists>nk nl nc nw.
      NewCurveKnotIns p knots old_knots old_knot_levels old_ctrl_pts old_weights u level
        = Some ([], Returned (nk, nl, nc, nw)) \<and>
      length nk = length old_knots + 1 \<and> length nl = length old_knot_levels + 1 \<and>
      length nc = length old_ctrl_pts + 1 \<and> length nw = length old_weights + 1 \<and>
      (\<forall>j < length nk. nk ! j = (if int j \<le> i then old_knots ! j
                                  else if int j = i + 1 then u else old_knots ! (j - 1))) \<and>
      (\<forall>j < length nl. nl ! j = (if int j \<le> i then old_knot_levels ! j
                                  else if int j = i + 1 then level else old_knot_levels ! (j - 1))) \<and>
      (\<forall>j < length nc. nc ! j =
          (if int j \<le> i - p then old_ctrl_pts ! j
           else if int j \<le> i
             then affine_row ((u - old_knots ! j) / (old_knots ! (j + nat p) - old_knots ! j))
                    (old_ctrl_pts ! j) (old_ctrl_pts ! (j - 1))
             else old_ctrl_pts ! (j - 1))) \<and>
      (\<forall>j < length nw. nw ! j =
          (if int j \<le> i - p then old_weights ! j
           else if int j \<le> i
             then ((u - old_knots ! j) / (old_knots ! (j + nat p) - old_knots ! j)) * old_weights ! j
                  + (1 - (u - old_knots ! j) / (old_knots ! (j + nat p) - old_knots ! j))
                    * old_weights ! (j - 1)
             else old_weights ! (j - 1)))"
proof -
  define n where "n = int (length old_ctrl_pts)"
  define cols where "cols = (case old_ctrl_pts of [] \<Rightarrow> 0 | r # _ \<Rightarrow> length r)"
  define L where "L = i - p + 1"
  have i0: "0 \<le> i" using p1 ip by simp
  have rd: "read_at knots i = Some (knots ! nat i)" using i0 ik by (simp add: read_at_def)
  \<comment> \<open>the knots and their levels\<close>
  define k0 where "k0 = replicate (length old_knots + 1) (0::real)"
  define l0 where "l0 = replicate (length old_knot_levels + 1) (0::int)"
  define c0 where "c0 = replicate (length old_ctrl_pts + 1) (replicate cols (0::real))"
  define v0 where "v0 = replicate (length old_weights + 1) (0::real)"
  define t0 where "t0 = replicate (nat (p + 1)) (replicate cols (0::real))"
  define x0 where "x0 = replicate (nat (p + 1)) (0::real)"
  have len0: "length k0 = length old_knots + 1" "length l0 = length old_knot_levels + 1"
    "length c0 = length old_ctrl_pts + 1" "length v0 = length old_weights + 1"
    "length t0 = nat (p + 1)" "length x0 = nat (p + 1)"
    by (simp_all add: k0_def l0_def c0_def v0_def t0_def x0_def)
  have h1: "0 \<le> i \<Longrightarrow> 0 \<le> 0 + (0::int) \<and> i + 0 < int (length k0) \<and> i + 0 < int (length l0) \<and>
      0 \<le> 0 + (0::int) \<and> i + 0 < int (length old_knots) \<and> i + 0 < int (length old_knot_levels)"
    using ilt lk ll p1 len0 by simp
  from copy2_copied [OF h1]
  obtain k1 l1 where s1: "copy2 [0..i] 0 0 old_knots old_knot_levels (k0, l0) = Some (k1, l1)"
    "copied 0 i 0 0 old_knots k0 k1" "copied 0 i 0 0 old_knot_levels l0 l1"
    by blast
  have len1: "length k1 = length old_knots + 1" "length l1 = length old_knot_levels + 1"
    using s1(2,3) len0 by (simp_all add: copied_def)
  have w2: "write_at k1 (i + 1) u = Some (k1[nat (i + 1) := u])"
    "write_at l1 (i + 1) level = Some (l1[nat (i + 1) := level])"
    using i0 ilt lk ll len1 p1 by (auto simp: write_at_def)
  let ?k2 = "k1[nat (i + 1) := u]"
  let ?l2 = "l1[nat (i + 1) := level]"
  let ?n = "int (length old_ctrl_pts)"
  have h3: "i + 1 \<le> ?n + p \<Longrightarrow> 0 \<le> i + 1 + 1 \<and> ?n + p + 1 < int (length ?k2) \<and>
      ?n + p + 1 < int (length ?l2) \<and>
      0 \<le> i + 1 + 0 \<and> ?n + p + 0 < int (length old_knots) \<and> ?n + p + 0 < int (length old_knot_levels)"
    using i0 lk ll len1 by simp
  from copy2_copied [OF h3]
  obtain k3 l3 where s3: "copy2 [i + 1..?n + p] 1 0 old_knots old_knot_levels (?k2, ?l2) = Some (k3, l3)"
    "copied (i + 1) (?n + p) 1 0 old_knots ?k2 k3" "copied (i + 1) (?n + p) 1 0 old_knot_levels ?l2 l3"
    by blast
  \<comment> \<open>the control points and weights that are copied\<close>
  have h4: "0 \<le> i - p \<Longrightarrow> 0 \<le> 0 + (0::int) \<and> i - p + 0 < int (length c0) \<and> i - p + 0 < int (length v0) \<and>
      0 \<le> 0 + (0::int) \<and> i - p + 0 < int (length old_ctrl_pts) \<and> i - p + 0 < int (length old_weights)"
    using ilt lw p1 len0 by simp
  from copy2_copied [OF h4]
  obtain c4 v4 where s4: "copy2 [0..i - p] 0 0 old_ctrl_pts old_weights (c0, v0) = Some (c4, v4)"
    "copied 0 (i - p) 0 0 old_ctrl_pts c0 c4" "copied 0 (i - p) 0 0 old_weights v0 v4"
    by blast
  have len4: "length c4 = length old_ctrl_pts + 1" "length v4 = length old_weights + 1"
    using s4(2,3) len0 by (simp_all add: copied_def)
  have h5: "i \<le> ?n - 1 \<Longrightarrow> 0 \<le> i + 1 \<and> ?n - 1 + 1 < int (length c4) \<and> ?n - 1 + 1 < int (length v4) \<and>
      0 \<le> i + 0 \<and> ?n - 1 + 0 < int (length old_ctrl_pts) \<and> ?n - 1 + 0 < int (length old_weights)"
    using i0 lw len4 by simp
  from copy2_copied [OF h5]
  obtain c5 v5 where s5: "copy2 [i..?n - 1] 1 0 old_ctrl_pts old_weights (c4, v4) = Some (c5, v5)"
    "copied i (?n - 1) 1 0 old_ctrl_pts c4 c5" "copied i (?n - 1) 1 0 old_weights v4 v5"
    by blast
  have len5: "length c5 = length old_ctrl_pts + 1" "length v5 = length old_weights + 1"
    using s5(2,3) len4 by (simp_all add: copied_def)
  \<comment> \<open>the temporary rows\<close>
  have h6: "0 \<le> p \<Longrightarrow> 0 \<le> 0 + (0::int) \<and> p + 0 < int (length t0) \<and> p + 0 < int (length x0) \<and>
      0 \<le> 0 + (i - p) \<and> p + (i - p) < int (length old_ctrl_pts) \<and> p + (i - p) < int (length old_weights)"
    using ilt ip lw len0 by simp
  from copy2_copied [OF h6]
  obtain t6 x6 where s6: "copy2 [0..p] 0 (i - p) old_ctrl_pts old_weights (t0, x0) = Some (t6, x6)"
    "copied 0 p 0 (i - p) old_ctrl_pts t0 t6" "copied 0 p 0 (i - p) old_weights x0 x6"
    by blast
  have len6: "int (length t6) = p + 1" "int (length x6) = p + 1"
    using s6(2,3) p1 len0 by (simp_all add: copied_def)
  have t6: "t6 ! j = old_ctrl_pts ! nat (int j + (i - p))" "x6 ! j = old_weights ! nat (int j + (i - p))"
    if "int j \<le> p" for j
    using s6(2,3) that by (simp_all add: copied_def)
  let ?al = "\<lambda>j. (u - old_knots ! nat (L + int j)) /
                     (old_knots ! nat (int j + i + 1) - old_knots ! nat (L + int j))"
  have "0 \<le> p" "0 \<le> L" "L + p - 1 < int (length old_knots)" "0 \<le> i + 1"
    "i + p < int (length old_knots)"
    using p1 ip ilt lk by (simp_all add: L_def)
  from insert_loop_inserted [OF this(1) len6 this(2-5), of u]
  obtain t7 x7 where s7: "insert_loop p i L old_knots u (t6, x6) = Some (t7, x7)"
    "inserted p ?al affine_row t6 t7" "inserted p ?al (\<lambda>a x y. a * x + (1 - a) * y) x6 x7"
    by blast
  have len7: "int (length t7) = p + 1" "int (length x7) = p + 1"
    using s7(2,3) len6 by (simp_all add: inserted_def)
  \<comment> \<open>a temporary row below \<open>p\<close>, in terms of the old rows\<close>
  define al where "al = (\<lambda>j::nat. (u - old_knots ! j) / (old_knots ! (j + nat p) - old_knots ! j))"
  have t7: "t7 ! m = affine_row (al (nat (L + int m))) (old_ctrl_pts ! nat (L + int m))
                       (old_ctrl_pts ! (nat (L + int m) - 1))"
    and x7: "x7 ! m = al (nat (L + int m)) * old_weights ! nat (L + int m)
                       + (1 - al (nat (L + int m))) * old_weights ! (nat (L + int m) - 1)"
    if "int m < p" for m
  proof -
    have a: "nat (int m + i + 1) = nat (L + int m) + nat p" using that ip p1 by (simp add: L_def)
    have b: "nat (int (m + 1) + (i - p)) = nat (L + int m)" using that ip p1 by (simp add: L_def)
    have c: "nat (int m + (i - p)) = nat (L + int m) - 1" using that ip p1 by (simp add: L_def)
    have "t7 ! m = affine_row (?al m) (t6 ! (m + 1)) (t6 ! m)"
      using s7(2) that by (simp add: inserted_def)
    then show "t7 ! m = affine_row (al (nat (L + int m))) (old_ctrl_pts ! nat (L + int m))
                       (old_ctrl_pts ! (nat (L + int m) - 1))"
      using that t6(1) [of "m + 1"] t6(1) [of m] unfolding al_def a b c by simp
    have "x7 ! m = ?al m * x6 ! (m + 1) + (1 - ?al m) * x6 ! m"
      using s7(3) that by (simp add: inserted_def)
    then show "x7 ! m = al (nat (L + int m)) * old_weights ! nat (L + int m)
                       + (1 - al (nat (L + int m))) * old_weights ! (nat (L + int m) - 1)"
      using that t6(2) [of "m + 1"] t6(2) [of m] unfolding al_def a b c by simp
  qed
  have r8: "read_at t7 0 = Some (t7 ! 0)" "read_at x7 0 = Some (x7 ! 0)"
    "read_at t7 (p - 1) = Some (t7 ! nat (p - 1))" "read_at x7 (p - 1) = Some (x7 ! nat (p - 1))"
    using p1 len7 by (auto simp: read_at_def)
  have w8: "write_at c5 L x = Some (c5[nat L := x])" "write_at v5 L y = Some (v5[nat L := y])"
    "write_at (c5[nat L := x]) i x' = Some (c5[nat L := x, nat i := x'])"
    "write_at (v5[nat L := y]) i y' = Some (v5[nat L := y, nat i := y'])" for x y x' y'
    using p1 ip ilt lw len5 by (auto simp: write_at_def L_def)
  let ?c8 = "c5[nat L := t7 ! 0, nat i := t7 ! nat (p - 1)]"
  let ?v8 = "v5[nat L := x7 ! 0, nat i := x7 ! nat (p - 1)]"
  have h9: "L + 1 \<le> i - 1 \<Longrightarrow> 0 \<le> L + 1 + 0 \<and> i - 1 + 0 < int (length ?c8) \<and> i - 1 + 0 < int (length ?v8) \<and>
      0 \<le> L + 1 + - L \<and> i - 1 + - L < int (length t7) \<and> i - 1 + - L < int (length x7)"
    using p1 ip ilt lw len5 len7 by (simp add: L_def)
  from copy2_copied [OF h9]
  obtain c9 v9 where s9: "copy2 [L + 1..i - 1] 0 (- L) t7 x7 (?c8, ?v8) = Some (c9, v9)"
    "copied (L + 1) (i - 1) 0 (- L) t7 ?c8 c9" "copied (L + 1) (i - 1) 0 (- L) x7 ?v8 v9"
    by blast
  have run: "NewCurveKnotIns p knots old_knots old_knot_levels old_ctrl_pts old_weights u level
        = Some ([], Returned (k3, l3, c9, v9))"
    unfolding NewCurveKnotIns_def Let_def cols_def [symmetric] k0_def [symmetric]
      l0_def [symmetric] c0_def [symmetric] v0_def [symmetric] t0_def [symmetric]
      x0_def [symmetric]
    using fs nu by (simp add: rd s1(1) w2 s3(1) s4(1) s5(1) s6(1) s7(1) r8 w8 s9(1)
        L_def [symmetric])
  have len3: "length k3 = length old_knots + 1" "length l3 = length old_knot_levels + 1"
    using s3(2,3) len1 by (simp_all add: copied_def)
  have len9: "length c9 = length old_ctrl_pts + 1" "length v9 = length old_weights + 1"
    using s9(2,3) len5 by (simp_all add: copied_def)
  have nat_i1: "nat (i + 1) = nat i + 1" using i0 by simp
  have k3: "k3 ! j = (if int j \<le> i then old_knots ! j
                      else if int j = i + 1 then u else old_knots ! (j - 1))"
    if "j < length k3" for j
  proof -
    have "nat (int j - 1) = j - 1" by simp
    moreover have "j = nat (i + 1) \<longleftrightarrow> int j = i + 1" using i0 by auto
    ultimately show ?thesis
      using that s3(2) s1(2) len3 len1 lk i0 by (auto simp: copied_def)
  qed
  have l3: "l3 ! j = (if int j \<le> i then old_knot_levels ! j
                      else if int j = i + 1 then level else old_knot_levels ! (j - 1))"
    if "j < length l3" for j
  proof -
    have "nat (int j - 1) = j - 1" by simp
    moreover have "j = nat (i + 1) \<longleftrightarrow> int j = i + 1" using i0 by auto
    ultimately show ?thesis
      using that s3(3) s1(3) len3 len1 lk ll i0 by (auto simp: copied_def)
  qed
  have c9: "c9 ! j = (if int j \<le> i - p then old_ctrl_pts ! j
           else if int j \<le> i
             then affine_row (al j) (old_ctrl_pts ! j) (old_ctrl_pts ! (j - 1))
             else old_ctrl_pts ! (j - 1))"
    and v9: "v9 ! j = (if int j \<le> i - p then old_weights ! j
           else if int j \<le> i
             then al j * old_weights ! j + (1 - al j) * old_weights ! (j - 1)
             else old_weights ! (j - 1))"
    if "j < length c9" for j
  proof -
    have jn: "int j \<le> int (length old_ctrl_pts)" using that len9 by simp
    have "int j \<le> i - p \<or> (L \<le> int j \<and> int j \<le> i) \<or> i < int j"
      unfolding L_def by linarith
    then consider (lo) "int j \<le> i - p" | (mid) "L \<le> int j" "int j \<le> i" | (hi) "i < int j"
      by blast
    then have "c9 ! j = (if int j \<le> i - p then old_ctrl_pts ! j
           else if int j \<le> i
             then affine_row (al j) (old_ctrl_pts ! j) (old_ctrl_pts ! (j - 1))
             else old_ctrl_pts ! (j - 1)) \<and>
       v9 ! j = (if int j \<le> i - p then old_weights ! j
           else if int j \<le> i
             then al j * old_weights ! j + (1 - al j) * old_weights ! (j - 1)
             else old_weights ! (j - 1))"
    proof cases
      case lo
      then have ne: "j \<noteq> nat L" "j \<noteq> nat i" using p1 ip by (auto simp: L_def)
      have "c9 ! j = c5 ! j" "v9 ! j = v5 ! j"
        using s9(2,3) lo ne p1 by (auto simp: copied_def L_def)
      moreover have "c5 ! j = c4 ! j" "v5 ! j = v4 ! j"
        using s5(2,3) lo p1 by (auto simp: copied_def)
      moreover have "c4 ! j = old_ctrl_pts ! j" "v4 ! j = old_weights ! j"
        using s4(2,3) lo by (auto simp: copied_def)
      ultimately show ?thesis using lo by simp
    next
      case mid
      define m where "m = nat (int j - L)"
      have m: "int m < p" "nat (L + int m) = j" "int m = int j - L"
        using mid p1 ip by (auto simp: m_def L_def)
      have "c9 ! j = t7 ! m \<and> v9 ! j = x7 ! m"
      proof (cases "L + 1 \<le> int j \<and> int j \<le> i - 1")
        case True
        then show ?thesis using s9(2,3) by (simp add: copied_def m_def)
      next
        case False
        then have e: "int j = L \<or> int j = i" using mid by auto
        have "c9 ! j = ?c8 ! j" "v9 ! j = ?v8 ! j"
          using s9(2,3) False by (auto simp: copied_def)
        moreover have "?c8 ! j = t7 ! m \<and> ?v8 ! j = x7 ! m"
        proof (cases "int j = i")
          case True
          then have "j = nat i" "m = nat (p - 1)" by (auto simp: m_def L_def)
          then show ?thesis using len5 ilt i0 lw by simp
        next
          case False
          then have "int j = L" using e by simp
          then have "j = nat L" "m = 0" "j \<noteq> nat i" using False i0 by (auto simp: m_def)
          then show ?thesis using len5 ilt i0 lw ip p1 by (simp add: L_def)
        qed
        ultimately show ?thesis by simp
      qed
      then show ?thesis using t7 [OF m(1)] x7 [OF m(1)] m(2) mid by (simp add: L_def)
    next
      case hi
      then have ne: "j \<noteq> nat L" "j \<noteq> nat i" using p1 ip i0 by (auto simp: L_def)
      have "c9 ! j = c5 ! j" "v9 ! j = v5 ! j"
        using s9(2,3) hi ne p1 by (auto simp: copied_def L_def)
      moreover have "nat (int j - 1) = j - Suc 0" by simp
      then have "c5 ! j = old_ctrl_pts ! (j - 1)" "v5 ! j = old_weights ! (j - 1)"
        using s5(2,3) hi jn by (auto simp: copied_def)
      ultimately show ?thesis using hi ip p1 by simp
    qed
    then show "c9 ! j = (if int j \<le> i - p then old_ctrl_pts ! j
           else if int j \<le> i
             then affine_row (al j) (old_ctrl_pts ! j) (old_ctrl_pts ! (j - 1))
             else old_ctrl_pts ! (j - 1))"
      and "v9 ! j = (if int j \<le> i - p then old_weights ! j
           else if int j \<le> i
             then al j * old_weights ! j + (1 - al j) * old_weights ! (j - 1)
             else old_weights ! (j - 1))"
      by simp_all
  qed
  show ?thesis
    using run len3 len9 k3 l3 c9 v9 lw unfolding al_def by auto
qed

lemmas eval_simps = NewCurveKnotIns_def FindSpan_def FindSpan_loop.simps read_at_def write_at_def
     copy2_def insert_loop_def affine_row_def signed_divide_int_def upto.simps

text \<open>
  C4. Let \<open>i\<close> be the span \<^verbatim>\<open>FindSpan\<close> returns for the new knot \<open>u\<close> in a curve of \<open>n\<close>
  control points (degree at least 1, knot vectors of \<open>n + p + 1\<close> entries), with
  \<open>knots[i] \<noteq> u\<close>, and \<open>L = i - p + 1\<close>. Then \<^verbatim>\<open>NewCurveKnotIns\<close> returns \<open>n + 1\<close> control
  points and weights; for \<open>j = 0, ..., p - 1\<close> the point \<open>L + j\<close> is
  \<open>alpha * old[L + j] + (1 - alpha) * old[L + j - 1]\<close> with
  \<open>alpha = (u - knots[L + j]) / (knots[i + j + 1] - knots[L + j])\<close>, its weight is the same
  combination of the old weights, the points and weights below \<open>L\<close> are the old ones, and
  those above \<open>i\<close> are the old ones moved up by one.
\<close>

theorem NewCurveKnotIns_affine_combinations:
  fixes old_ctrl_pts :: "real list list"
  assumes "1 \<le> p" and "p < int (length old_ctrl_pts)"
    and "int (length old_ctrl_pts) < int (length knots)"
    and "knots ! nat p \<le> u" and "u \<le> knots ! nat (int (length old_ctrl_pts))"
    and "FindSpan p knots u (int (length old_ctrl_pts)) = Some i"
    and "knots ! nat i \<noteq> u"
    and "int (length old_knots) = int (length old_ctrl_pts) + p + 1"
    and "length old_knot_levels = length old_knots"
    and "length old_weights = length old_ctrl_pts"
  shows "\<exists>nk nl nc nw.
      NewCurveKnotIns p knots old_knots old_knot_levels old_ctrl_pts old_weights u level
        = Some ([], Returned (nk, nl, nc, nw)) \<and>
      length nc = length old_ctrl_pts + 1 \<and> length nw = length old_weights + 1 \<and>
      (\<forall>j. 0 \<le> j \<and> j \<le> p - 1 \<longrightarrow>
         nc ! nat (i - p + 1 + j) =
           affine_row ((u - old_knots ! nat (i - p + 1 + j)) /
                (old_knots ! nat (i + j + 1) - old_knots ! nat (i - p + 1 + j)))
             (old_ctrl_pts ! nat (i - p + 1 + j)) (old_ctrl_pts ! nat (i - p + 1 + j - 1)) \<and>
         nw ! nat (i - p + 1 + j) =
           (u - old_knots ! nat (i - p + 1 + j)) /
                (old_knots ! nat (i + j + 1) - old_knots ! nat (i - p + 1 + j))
             * old_weights ! nat (i - p + 1 + j)
           + (1 - (u - old_knots ! nat (i - p + 1 + j)) /
                (old_knots ! nat (i + j + 1) - old_knots ! nat (i - p + 1 + j)))
             * old_weights ! nat (i - p + 1 + j - 1)) \<and>
      (\<forall>m. int m < i - p + 1 \<longrightarrow> nc ! m = old_ctrl_pts ! m \<and> nw ! m = old_weights ! m) \<and>
      (\<forall>m. i < int m \<and> m \<le> length old_ctrl_pts \<longrightarrow>
         nc ! m = old_ctrl_pts ! (m - 1) \<and> nw ! m = old_weights ! (m - 1))"
proof -
  from FindSpan_returns_span [OF _ assms(2) assms(3) assms(4) assms(5)] assms(1) assms(6)
  have rng: "p \<le> i" "i < int (length old_ctrl_pts)" by auto
  then have ik: "i < int (length knots)" using assms(3) by simp
  from NewCurveKnotIns_result [OF assms(1) assms(6) rng ik assms(7-10), of level]
  obtain nk nl nc nw where r:
    "NewCurveKnotIns p knots old_knots old_knot_levels old_ctrl_pts old_weights u level
        = Some ([], Returned (nk, nl, nc, nw))"
    "length nc = length old_ctrl_pts + 1" "length nw = length old_weights + 1"
    "\<forall>j < length nc. nc ! j =
          (if int j \<le> i - p then old_ctrl_pts ! j
           else if int j \<le> i
             then affine_row ((u - old_knots ! j) / (old_knots ! (j + nat p) - old_knots ! j))
                    (old_ctrl_pts ! j) (old_ctrl_pts ! (j - 1))
             else old_ctrl_pts ! (j - 1))"
    "\<forall>j < length nw. nw ! j =
          (if int j \<le> i - p then old_weights ! j
           else if int j \<le> i
             then ((u - old_knots ! j) / (old_knots ! (j + nat p) - old_knots ! j)) * old_weights ! j
                  + (1 - (u - old_knots ! j) / (old_knots ! (j + nat p) - old_knots ! j))
                    * old_weights ! (j - 1)
             else old_weights ! (j - 1))"
    by blast
  have win: "nc ! nat (i - p + 1 + j) =
           affine_row ((u - old_knots ! nat (i - p + 1 + j)) /
                (old_knots ! nat (i + j + 1) - old_knots ! nat (i - p + 1 + j)))
             (old_ctrl_pts ! nat (i - p + 1 + j)) (old_ctrl_pts ! nat (i - p + 1 + j - 1)) \<and>
         nw ! nat (i - p + 1 + j) =
           (u - old_knots ! nat (i - p + 1 + j)) /
                (old_knots ! nat (i + j + 1) - old_knots ! nat (i - p + 1 + j))
             * old_weights ! nat (i - p + 1 + j)
           + (1 - (u - old_knots ! nat (i - p + 1 + j)) /
                (old_knots ! nat (i + j + 1) - old_knots ! nat (i - p + 1 + j)))
             * old_weights ! nat (i - p + 1 + j - 1)"
    if "0 \<le> j" "j \<le> p - 1" for j
  proof -
    define m where "m = nat (i - p + 1 + j)"
    have m: "int m = i - p + 1 + j" using that rng assms(1) by (simp add: m_def)
    have a: "m + nat p = nat (i + j + 1)" "m - 1 = nat (i - p + 1 + j - 1)"
      using m that rng assms(1) by auto
    have lt: "m < length nc" "m < length nw" using m that rng r(2,3) assms(10) by auto
    have c: "\<not> int m \<le> i - p" "int m \<le> i" using m that by auto
    show ?thesis
      using r(4) [rule_format, OF lt(1)] r(5) [rule_format, OF lt(2)] c
      unfolding m_def [symmetric] a [symmetric] by simp
  qed
  have lo: "nc ! m = old_ctrl_pts ! m \<and> nw ! m = old_weights ! m" if "int m < i - p + 1" for m
  proof -
    have lt: "m < length nc" "m < length nw" using that rng r(2,3) assms(1,10) by auto
    show ?thesis using r(4) [rule_format, OF lt(1)] r(5) [rule_format, OF lt(2)] that by simp
  qed
  have hi: "nc ! m = old_ctrl_pts ! (m - 1) \<and> nw ! m = old_weights ! (m - 1)"
    if "i < int m" "m \<le> length old_ctrl_pts" for m
  proof -
    have lt: "m < length nc" "m < length nw" using that r(2,3) assms(10) by auto
    show ?thesis using r(4) [rule_format, OF lt(1)] r(5) [rule_format, OF lt(2)] that rng assms(1)
      by simp
  qed
  show ?thesis using r(1,2,3) win lo hi by blast
qed

theorem NewCurveKnotIns_affine_combinations_witness:
  "NewCurveKnotIns 3 [0, 0, 0, 0, 1/4, 1/2, 3/4, 1, 1, 1, 1] [0, 0, 0, 0, 1/4, 1/2, 3/4, 1, 1, 1, 1]
     [0, 0, 0, 0, 0, 0, 0, 0, 0, 0, 0] [[0], [1], [2], [3], [4], [5], [6]] [1, 1, 1, 1, 1, 1, 1] (3/10) 1 =
   Some ([], Returned ([0, 0, 0, 0, 1/4, 3/10, 1/2, 3/4, 1, 1, 1, 1], [0, 0, 0, 0, 0, 1, 0, 0, 0, 0, 0, 0],
      [[0], [1], [8/5], [12/5], [46/15], [4], [5], [6]], [1, 1, 1, 1, 1, 1, 1, 1]))"
  using NewCurveKnotIns_affine_combinations [of 3 "[[0], [1], [2], [3], [4], [5], [6]]"
      "[0, 0, 0, 0, 1/4, 1/2, 3/4, 1, 1, 1, 1]" "3/10" 4 "[0, 0, 0, 0, 1/4, 1/2, 3/4, 1, 1, 1, 1]"
      "[0, 0, 0, 0, 0, 0, 0, 0, 0, 0, 0]" "[1, 1, 1, 1, 1, 1, 1]" 1]
  by (simp add: eval_simps)

lemma sorted_knot_in_span:
  assumes "sorted knots" and "u \<in> set knots" and "0 \<le> i" and "i + 1 < int (length knots)"
    and "knots ! nat i \<le> u" and "u < knots ! nat (i + 1)"
  shows "knots ! nat i = u"
proof -
  from assms(2) obtain m where m: "m < length knots" "knots ! m = u"
    by (auto simp: in_set_conv_nth)
  have "m \<le> nat i"
  proof (rule ccontr)
    assume "\<not> m \<le> nat i"
    then have "nat (i + 1) \<le> m" using assms(3) by simp
    then have "knots ! nat (i + 1) \<le> knots ! m"
      using assms(1) m(1) by (simp add: sorted_iff_nth_mono)
    then show False using m(2) assms(6) by simp
  qed
  then have "knots ! m \<le> knots ! nat i"
    using assms(1,3,4) by (simp add: sorted_iff_nth_mono)
  then show ?thesis using m(2) assms(5) by simp
qed

text \<open>
  C7 (as amended). On a non-decreasing knot vector and for \<open>knots[p] \<le> u < knots[n]\<close>,
  \<^verbatim>\<open>NewCurveKnotIns\<close> rejects the knot, with an error message and \<^verbatim>\<open>exit(0)\<close>, when \<open>u\<close>
  is the value of a knot of the vector, of whatever level, and otherwise inserts it and
  returns. The level of the new knot plays no part.
\<close>

theorem NewCurveKnotIns_rejects_existing_value:
  fixes old_ctrl_pts :: "real list list"
  assumes "sorted knots" and "1 \<le> p" and "p < int (length old_ctrl_pts)"
    and "int (length old_ctrl_pts) < int (length knots)"
    and "knots ! nat p \<le> u" and "u < knots ! nat (int (length old_ctrl_pts))"
    and "int (length old_knots) = int (length old_ctrl_pts) + p + 1"
    and "length old_knot_levels = length old_knots"
    and "length old_weights = length old_ctrl_pts"
  shows "(u \<in> set knots \<longrightarrow>
            NewCurveKnotIns p knots old_knots old_knot_levels old_ctrl_pts old_weights u level
              = Some ([Err_duplicate_knot], Exited 0)) \<and>
         (u \<notin> set knots \<longrightarrow>
            (\<exists>r. NewCurveKnotIns p knots old_knots old_knot_levels old_ctrl_pts old_weights u level
              = Some ([], Returned r)))"
proof -
  have p0: "0 \<le> p" using assms(2) by simp
  have ule: "u \<le> knots ! nat (int (length old_ctrl_pts))" and une: "u \<noteq> knots ! nat (int (length old_ctrl_pts))"
    using assms(6) by simp_all
  from FindSpan_returns_span [OF p0 assms(3) assms(4) assms(5) ule] une
  obtain i where i: "FindSpan p knots u (int (length old_ctrl_pts)) = Some i" "p \<le> i"
    "i \<le> int (length old_ctrl_pts) - 1" "knots ! nat i \<le> u" "u < knots ! nat (i + 1)"
    by auto
  have ik: "i < int (length knots)" "0 \<le> i" "i + 1 < int (length knots)"
    using i(2,3) assms(4) p0 by simp_all
  have rd: "read_at knots i = Some (knots ! nat i)" using ik by (simp add: read_at_def)
  show ?thesis
  proof (intro conjI impI)
    assume "u \<in> set knots"
    then have "knots ! nat i = u"
      using sorted_knot_in_span [OF assms(1) _ ik(2) ik(3) i(4) i(5)] by simp
    then show "NewCurveKnotIns p knots old_knots old_knot_levels old_ctrl_pts old_weights u level
              = Some ([Err_duplicate_knot], Exited 0)"
      by (simp add: NewCurveKnotIns_def Let_def i(1) rd)
  next
    assume "u \<notin> set knots"
    then have ne: "knots ! nat i \<noteq> u" using ik by (metis nth_mem nat_less_iff)
    have ilt: "i < int (length old_ctrl_pts)" using i(3) by simp
    from NewCurveKnotIns_result [OF assms(2) i(1) i(2) ilt ik(1) ne assms(7-9), of level]
    show "\<exists>r. NewCurveKnotIns p knots old_knots old_knot_levels old_ctrl_pts old_weights u level
              = Some ([], Returned r)"
      by blast
  qed
qed

theorem NewCurveKnotIns_rejects_existing_value_witness:
  "NewCurveKnotIns 1 [0, 0, 1/2, 1, 1] [0, 0, 1/2, 1, 1] [0, 0, 1, 0, 0]
      [[0], [1], [2]] [1, 1, 1] (1/2) 1 = Some ([Err_duplicate_knot], Exited 0) \<and>
   (\<exists>r. NewCurveKnotIns 1 [0, 0, 1/2, 1, 1] [0, 0, 1/2, 1, 1] [0, 0, 1, 0, 0]
      [[0], [1], [2]] [1, 1, 1] (1/4) 1 = Some ([], Returned r))"
proof -
  have 1: "NewCurveKnotIns 1 [0, 0, 1/2, 1, 1] [0, 0, 1/2, 1, 1] [0, 0, 1, 0, 0]
      [[0], [1], [2]] [1, 1, 1] (1/2) 1 = Some ([Err_duplicate_knot], Exited 0)"
    using NewCurveKnotIns_rejects_existing_value [of "[0, 0, 1/2, 1, 1]" 1 "[[0], [1], [2]]" "1/2"
        "[0, 0, 1/2, 1, 1]" "[0, 0, 1, 0, 0]" "[1, 1, 1]" 1]
    by simp
  have 2: "\<exists>r. NewCurveKnotIns 1 [0, 0, 1/2, 1, 1] [0, 0, 1/2, 1, 1] [0, 0, 1, 0, 0]
      [[0], [1], [2]] [1, 1, 1] (1/4) 1 = Some ([], Returned r)"
    using NewCurveKnotIns_rejects_existing_value [of "[0, 0, 1/2, 1, 1]" 1 "[[0], [1], [2]]" "1/4"
        "[0, 0, 1/2, 1, 1]" "[0, 0, 1, 0, 0]" "[1, 1, 1]" 1]
    by simp
  show ?thesis using 1 2 by simp
qed

text \<open>
  C7 as stated fails. The knot \<open>1/2\<close> exists at level 1 only; inserting \<open>1/2\<close> at level 0,
  a value not present in that level, is rejected. And the last knot value 1, present at
  level 0, is inserted: \<^verbatim>\<open>FindSpan\<close> returns the span before it, whose left knot differs.
\<close>

theorem NewCurveKnotIns_level_counterexample:
  "NewCurveKnotIns 1 [0, 0, 1/2, 1, 1] [0, 0, 1/2, 1, 1] [0, 0, 1, 0, 0]
      [[0], [1], [2]] [1, 1, 1] (1/2) 0 = Some ([Err_duplicate_knot], Exited 0) \<and>
   (1/2, 0) \<notin> set (zip [0, 0, 1/2, 1, 1 :: real] [0, 0, 1, 0, 0 :: int]) \<and>
   NewCurveKnotIns 1 [0, 0, 1/2, 1, 1] [0, 0, 1/2, 1, 1] [0, 0, 1, 0, 0]
      [[0], [1], [2]] [1, 1, 1] 1 0 =
      Some ([], Returned ([0, 0, 1/2, 1, 1, 1], [0, 0, 1, 0, 0, 0], [[0], [1], [2], [2]], [1, 1, 1, 1])) \<and>
   (1, 0) \<in> set (zip [0, 0, 1/2, 1, 1 :: real] [0, 0, 1, 0, 0 :: int])"
  by (simp add: eval_simps)

section \<open>Partition of unity of the basis functions\<close>







section \<open>Marking of spans by \<^verbatim>\<open>ErrorCurve\<close>\<close>

text \<open>
  C8. A curve of degree 1 with the knots \<open>0, 0, 1/2, 1, 1\<close> and six input points at the
  parameters \<open>0, 1/5, ..., 1\<close>; the limit is \<open>1/10\<close>. When only the last point (parameter
  1) has an error above the limit, its span \<open>[1/2, 1]\<close> (index 2) has the parameter
  \<open>3/5\<close> in its left half and \<open>4/5\<close> in its right half, yet \<^verbatim>\<open>ErrorCurve\<close> does not mark
  it: the scan to the right starts at the point itself, whose parameter is not below
  the right knot of the span. The point is counted. When the point at \<open>4/5\<close> has the
  error instead, the same span is marked.
\<close>

theorem ErrorCurve_last_point_not_marked:
  "ErrorCurve 1 [0, 0, 1/2, 1, 1] [0, 1/5, 2/5, 3/5, 4/5, 1] 6 1 0 0
      [[0], [0], [0], [0], [0], [0]] 0 (\<lambda>u. Some [if u = 1 then 1 else 0]) [] {} (1/10)
     = Some ({}, 1) \<and>
   ErrorCurve 1 [0, 0, 1/2, 1, 1] [0, 1/5, 2/5, 3/5, 4/5, 1] 6 1 0 0
      [[0], [0], [0], [0], [0], [0]] 0 (\<lambda>u. Some [if u = 4/5 then 1 else 0]) [] {} (1/10)
     = Some ({2}, 1)"
  by (simp add: ErrorCurve_def ErrorCurve_max_err_def read_at_def upto.simps)

section \<open>\<^verbatim>\<open>FastVolPt\<close> with unequal degrees\<close>

lemmas fast_simps = FastVolPt_def FastVolPt_basis_def FastVolPt_sums_def FastVolPt_dim0_def
  FastVolPt_dimk_def strided_def FindSpan_knots_def FindSpan_def
  FindSpan_loop.simps FastBasisFuns_def FastBasisFuns_prints_def OrigBasisFuns_inner_def
  read_at_def write_at_def upto.simps signed_divide_int_def

lemma uneq_decoder_built: "Decoder_ctor uneq_mfa 0 False = Some ([], Returned uneq_decoder)"
  by (simp add: Decoder_ctor_def Decoder_strides_def Decoder_ct_row_def uneq_mfa_def uneq_tensor_def
      uneq_decoder_def mat_size_def read_at_def write_at_def upto.simps signed_divide_int_def
      eval_nat_numeral Let_def)

lemma uneq_di_built: "FastDecodeInfo_ctor uneq_decoder = Some uneq_di"
  by (simp add: FastDecodeInfo_ctor_def uneq_decoder_def uneq_di_def BasisFunInfo_qmax_def
      read_at_def write_at_def upto.simps signed_divide_int_def eval_nat_numeral Let_def)

lemma uneq_basis: "FastVolPt_basis uneq_mfa [1/2, 1/2] uneq_di = Some (Returned
    \<lparr>di_N = [[1/4, 1/2, 1/4], [1/8, 3/8, 3/8, 1/8]], di_t = [[0, 0, 0], [0]], di_span = [2, 3],
     di_left = [0, 1/2, 1/2, 1/2], di_right = [0, 1/2, 1/2, 1/2]\<rparr>)"
  by (simp add: fast_simps uneq_mfa_def uneq_di_def)

lemma FastVolPt_equal_degrees_example:
  "\<exists>dec di. Decoder_ctor eq_mfa 0 False = Some ([], Returned dec) \<and>
    FastDecodeInfo_ctor dec = Some di \<and> map length (di_t di) = [3, 1] \<and>
    FastVolPt False True dec eq_mfa [1/2, 1/2] [0] di eq_tensor = Some (Returned [4])"
  by (simp add: Decoder_ctor_def Decoder_strides_def Decoder_ct_row_def eq_mfa_def eq_tensor_def
      mat_size_def FastDecodeInfo_ctor_def BasisFunInfo_qmax_def fast_simps
      eval_nat_numeral Let_def)

text \<open>
  C3. For the surface of degrees 2 and 3 the constructors give \<^verbatim>\<open>ds = {1, 4}\<close>
  (\<^verbatim>\<open>ds[i] = ds[i-1] * q[i]\<close>) and a temporary \<^verbatim>\<open>t[0]\<close> of \<open>12 / ds[1] = 3\<close> entries, while
  the first loop of \<^verbatim>\<open>FastVolPt\<close> writes \<^verbatim>\<open>t[0][id]\<close> for \<open>id = 0, ..., 3\<close> (12 iterations in
  steps of \<open>q0 = 3\<close>). The write of \<^verbatim>\<open>t[0][3]\<close> is past the end of the vector:
  \<^verbatim>\<open>FastVolPt\<close> has no defined result at the parameter \<open>(1/2, 1/2)\<close>, where the sum of
  the products of the basis functions and the control points is \<open>11/2\<close>. With four
  entries in \<^verbatim>\<open>t[0]\<close> the first loop gives the four partial sums.
\<close>

theorem FastVolPt_unequal_degrees_out_of_bounds:
  "Decoder_ctor uneq_mfa 0 False = Some ([], Returned uneq_decoder) \<and>
   FastDecodeInfo_ctor uneq_decoder = Some uneq_di \<and>
   map length (di_t uneq_di) = [3, 1] \<and>
   FastVolPt False True uneq_decoder uneq_mfa [1/2, 1/2] [0] uneq_di uneq_tensor = None \<and>
   FastVolPt_dim0 uneq_decoder [1/4, 1/2, 1/4] (concat (tp_ctrl_pts uneq_tensor)) 0 [0, 0, 0] = None \<and>
   FastVolPt_dim0 uneq_decoder [1/4, 1/2, 1/4] (concat (tp_ctrl_pts uneq_tensor)) 0 [0, 0, 0, 0]
     = Some [1, 4, 7, 10]"
proof -
  have "FastVolPt False True uneq_decoder uneq_mfa [1/2, 1/2] [0] uneq_di uneq_tensor = None"
    by (simp add: fast_simps uneq_mfa_def uneq_di_def uneq_decoder_def uneq_tensor_def)
  moreover have
    "FastVolPt_dim0 uneq_decoder [1/4, 1/2, 1/4] (concat (tp_ctrl_pts uneq_tensor)) 0 [0, 0, 0] = None"
    "FastVolPt_dim0 uneq_decoder [1/4, 1/2, 1/4] (concat (tp_ctrl_pts uneq_tensor)) 0 [0, 0, 0, 0]
     = Some [1, 4, 7, 10]"
    by (simp_all add: fast_simps uneq_decoder_def uneq_tensor_def)
  moreover have "map length (di_t uneq_di) = [3, 1]" by (simp add: uneq_di_def)
  ultimately show ?thesis using uneq_decoder_built uneq_di_built by simp
qed

section \<open>Knot insertion into a volume\<close>











lemmas vol_simps = NewKnotInsertion_def NewVolKnotIns_def NewVolKnotIns_dim_def NewVolKnotIns_curves_def
  NewVolKnotIns_curve_def curve_stride_def
  curve_offsets_def CtrlPts2CtrlCurve_def CtrlCurve2CtrlPts_def eval_simps eval_nat_numeral Let_def

text \<open>
  A bilinear patch of 2 x 2 control points with the values 0, 1, 2, 3, that is the
  function \<open>x + 2 y\<close>: the insertion of the knots 1/2 and 1/4 gives the 3 x 3 control
  points of the same function.
\<close>

lemma NewVolKnotIns_bilinear_example:
  "NewVolKnotIns 2 [1, 1] [[0, 0, 1, 1], [0, 0, 1, 1]] [[0, 0, 1, 1], [0, 0, 1, 1]]
    [[0, 0, 0, 0], [0, 0, 0, 0]] [[0], [1], [2], [3]] [1, 1, 1, 1] [1/2, 1/4] 1 [2, 2] =
   Some ([], Returned ([[0, 0, 1/2, 1, 1], [0, 0, 1/4, 1, 1]], [[0, 0, 1, 0, 0], [0, 0, 1, 0, 0]],
     [[0], [1/2], [1], [1/2], [1], [3/2], [2], [5/2], [3]], [1, 1, 1, 1, 1, 1, 1, 1, 1], [3, 3]))"
  by (simp add: vol_simps)








end
